theory Spec2Isabelle
  imports Complex_Main "HOL-Library.Word"
begin

section \<open>The user document and the login context\<close>

text \<open>
  The handlers of \<^verbatim>\<open>Backend/controller/auth.controller.js\<close> work on one Mongoose
  document per user. A JavaScript number that the handlers only carry around (coordinates,
  typing speed, balance) is a \<^typ>\<open>real\<close>; a time stamp is the integer number of
  milliseconds that \<^verbatim>\<open>Date.now()\<close> returns; a risk score is an \<^typ>\<open>int\<close>. A field
  that may be \<^verbatim>\<open>undefined\<close> is an option.
\<close>

record coords =
  latitude :: real
  longitude :: real

record login_context =
  ip :: "string option"
  device :: "string option"
  location :: "coords option"
  typingSpeed :: "real option"
  loginHours :: "int option"

record geo =
  lat :: real
  lon :: real

record logged_location =
  log_lat :: real
  log_lon :: real
  locationName :: string

record context_log =
  log_ip :: string
  log_device :: string
  log_location :: logged_location
  timestamp :: int
  log_riskScore :: int

record behavioral =
  baseTypingSpeed :: real
  baseLoginHours :: "int list"

record user =
  uid :: nat
  accountNumber :: string
  ifscCode :: string
  balance :: real
  email :: string
  password :: string
  name :: string
  isVerified :: bool
  lastLogin :: "int option"
  verificationToken :: "string option"
  verificationTokenExpiresAt :: "int option"
  resetPasswordToken :: "string option"
  resetPasswordExpiresAt :: "int option"
  trustedIPs :: "string list"
  trustedDevices :: "string list option"
  locations :: "geo list"
  contextLogs :: "context_log list"
  behavioralProfile :: behavioral
  riskScore :: int

text \<open>
  The TrustStore of the specification is the part of the user document that the risk
  scorer reads and the profile updater writes.
\<close>

record trust_store =
  ts_trustedIPs :: "string list"
  ts_trustedDevices :: "string list option"
  ts_locations :: "geo list"
  ts_contextLogs :: "context_log list"
  ts_behavioralProfile :: behavioral
  ts_riskScore :: int

definition trustStore :: "user \<Rightarrow> trust_store" where
  "trustStore u =
     \<lparr>ts_trustedIPs = trustedIPs u, ts_trustedDevices = trustedDevices u,
      ts_locations = locations u, ts_contextLogs = contextLogs u,
      ts_behavioralProfile = behavioralProfile u, ts_riskScore = riskScore u\<rparr>"

definition withTrustStore :: "trust_store \<Rightarrow> user \<Rightarrow> user" where
  "withTrustStore ts u =
     u\<lparr>trustedIPs := ts_trustedIPs ts, trustedDevices := ts_trustedDevices ts,
       locations := ts_locations ts, contextLogs := ts_contextLogs ts,
       behavioralProfile := ts_behavioralProfile ts, riskScore := ts_riskScore ts\<rparr>"

section \<open>Requests, responses and mail\<close>

text \<open>
  The user object of a response body: the spread \<^verbatim>\<open>...user._doc\<close> copies every field
  of the document, and a field overridden with \<^verbatim>\<open>undefined\<close> is \<open>None\<close>.
\<close>

record user_json =
  j_id :: "nat option"
  j_accountNumber :: "string option"
  j_ifscCode :: "string option"
  j_balance :: "real option"
  j_email :: "string option"
  j_password :: "string option"
  j_name :: "string option"
  j_isVerified :: "bool option"
  j_lastLogin :: "int option"
  j_verificationToken :: "string option"
  j_verificationTokenExpiresAt :: "int option"
  j_resetPasswordToken :: "string option"
  j_resetPasswordExpiresAt :: "int option"
  j_trustedIPs :: "string list option"
  j_trustedDevices :: "string list option"
  j_locations :: "geo list option"
  j_contextLogs :: "context_log list option"
  j_behavioralProfile :: "behavioral option"
  j_riskScore :: "int option"

definition spreadDoc :: "user \<Rightarrow> user_json" where
  "spreadDoc u =
     \<lparr>j_id = Some (uid u), j_accountNumber = Some (accountNumber u),
      j_ifscCode = Some (ifscCode u), j_balance = Some (balance u),
      j_email = Some (email u), j_password = Some (password u), j_name = Some (name u),
      j_isVerified = Some (isVerified u), j_lastLogin = lastLogin u,
      j_verificationToken = verificationToken u,
      j_verificationTokenExpiresAt = verificationTokenExpiresAt u,
      j_resetPasswordToken = resetPasswordToken u,
      j_resetPasswordExpiresAt = resetPasswordExpiresAt u,
      j_trustedIPs = Some (trustedIPs u), j_trustedDevices = trustedDevices u,
      j_locations = Some (locations u), j_contextLogs = Some (contextLogs u),
      j_behavioralProfile = Some (behavioralProfile u), j_riskScore = Some (riskScore u)\<rparr>"

datatype body =
    Message bool string
  | ErrorOnly string
  | TwoFactorRequired string string
  | WithUser string user_json

text \<open>
  \<open>Message ok msg\<close> is \<^verbatim>\<open>{success: ok, message: msg}\<close>, \<open>ErrorOnly e\<close> is
  \<^verbatim>\<open>{error: e}\<close>, \<open>TwoFactorRequired msg e\<close> is
  \<^verbatim>\<open>{success: true, message: msg, require2FA: true, email: e}\<close> and \<open>WithUser msg u\<close> is
  \<^verbatim>\<open>{success: true, message: msg, user: u}\<close>. The cookie of a response is the user id
  that \<^verbatim>\<open>generateTokenAndSetCookie(res, user._id)\<close> signed into the session token, if it
  was called.
\<close>

record response =
  status :: nat
  json :: body
  cookie :: "nat option"

fun success :: "body \<Rightarrow> bool" where
  "success (Message ok msg) = ok"
| "success (ErrorOnly e) = False"
| "success (TwoFactorRequired msg e) = True"
| "success (WithUser msg u) = True"

fun userOf :: "body \<Rightarrow> user_json option" where
  "userOf (WithUser msg u) = Some u"
| "userOf b = None"

datatype mail =
    VerificationEmail string string
  | WelcomeEmail string string
  | ResetPasswordEmail string string
  | ResetSuccessEmail string
  | NewDeviceLoginAlert string string "login_context option" string
  | SuspiciousActivityWarning string string "login_context option" int
  | TwoFactorAuthEmail string string string "login_context option"

record login_body =
  body_email :: "string option"
  body_password :: "string option"
  body_context :: "login_context option"
  body_captcha :: "string option"

text \<open>
  What a handler leaves behind: the response, the stored documents and the calls it made
  to the mail senders, in order. A call is recorded whether or not the sender then
  throws.
\<close>

record outcome =
  response :: response
  store :: "user list"
  outbox :: "mail list"

section \<open>Collaborators\<close>

text \<open>
  The utilities the controller imports are not part of the controller; they are the
  fields of an environment. \<open>evaluateContext\<close> is the risk scorer, \<open>None\<close> when it
  throws. \<open>foldContext\<close> is the fold of the profile updater on the TrustStore, \<open>None\<close>
  when it throws. \<open>deliver m\<close> tells whether the sender called for the mail \<open>m\<close> returns
  (\<open>True\<close>) or throws (\<open>False\<close>). \<open>dateNow\<close> is the clock reading at each place that
  reads the clock.
\<close>

datatype clock_read = AtResetIssue | AtCodeIssue | AtLastLogin | AtQuery

record env =
  bcryptCompare :: "string \<Rightarrow> string \<Rightarrow> bool"
  bcryptHash :: "string \<Rightarrow> string"
  verifyCaptcha :: "string \<Rightarrow> bool"
  evaluateContext :: "login_context option \<Rightarrow> user \<Rightarrow> int option"
  foldContext :: "trust_store \<Rightarrow> login_context option \<Rightarrow> int \<Rightarrow> trust_store option"
  generateVerificationCode :: string
  randomBytes :: "nat \<Rightarrow> 8 word list"
  dateNow :: "clock_read \<Rightarrow> int"
  clientUrl :: string
  deliver :: "mail \<Rightarrow> bool"

section \<open>Library functions the handlers call\<close>

definition falsy :: "string option \<Rightarrow> bool" where
  "falsy x = (case x of None \<Rightarrow> True | Some s \<Rightarrow> s = [])"

definition str :: "string option \<Rightarrow> string" where
  "str x = (case x of None \<Rightarrow> [] | Some s \<Rightarrow> s)"

text \<open>\<^verbatim>\<open>Buffer.toString("hex")\<close>: two lower-case hexadecimal digits per byte.\<close>

definition hexDigit :: "nat \<Rightarrow> char" where
  "hexDigit n = ''0123456789abcdef'' ! (n mod 16)"

definition toHex :: "8 word list \<Rightarrow> string" where
  "toHex bs = concat (map (\<lambda>b. [hexDigit (unat b div 16), hexDigit (unat b mod 16)]) bs)"

text \<open>
  \<^verbatim>\<open>User.findOne(query)\<close> returns the first stored document that matches, together
  with its place in the collection; \<^verbatim>\<open>user.save()\<close> writes the document back to that
  place.
\<close>

fun findOne :: "(user \<Rightarrow> bool) \<Rightarrow> user list \<Rightarrow> (nat \<times> user) option" where
  "findOne q [] = None"
| "findOne q (u # us) =
     (if q u then Some (0, u)
      else (case findOne q us of None \<Rightarrow> None | Some (i, v) \<Rightarrow> Some (Suc i, v)))"

definition save :: "nat \<Rightarrow> user \<Rightarrow> user list \<Rightarrow> user list" where
  "save i u db = db[i := u]"

text \<open>The query \<^verbatim>\<open>{$gt: now}\<close> on a field that may be absent.\<close>

definition gt :: "int option \<Rightarrow> int \<Rightarrow> bool" where
  "gt field now = (case field of None \<Rightarrow> False | Some t \<Rightarrow> now < t)"

definition failure :: "nat \<Rightarrow> string \<Rightarrow> response" where
  "failure code msg = \<lparr>status = code, json = Message False msg, cookie = None\<rparr>"

definition resetLink :: "env \<Rightarrow> string \<Rightarrow> string" where
  "resetLink env resetToken = clientUrl env @ ''/reset-password/'' @ resetToken"

text \<open>
  Modelled from the spec: \<^verbatim>\<open>updateContextProfile\<close> (utils/updateContextProfile.js is
  not among the sources). The specification gives it the contract
  \<^verbatim>\<open>fold(trustStore, context, score) -> trustStore'\<close> and has it write the result back to
  the TrustStore of the user; the fold itself is the parameter \<open>foldContext\<close>.
\<close>

definition updateContextProfile ::
  "env \<Rightarrow> nat \<Rightarrow> user \<Rightarrow> login_context option \<Rightarrow> int \<Rightarrow> user list
     \<Rightarrow> (user \<times> user list) option" where
  "updateContextProfile env i u ctx risk db =
     (case foldContext env (trustStore u) ctx risk of
        None \<Rightarrow> None
      | Some ts \<Rightarrow> Some (withTrustStore ts u, save i (withTrustStore ts u) db))"

section \<open>login\<close>

text \<open>
  Line 150, \<^verbatim>\<open>user.trustedDevices?.includes(context.device)\<close>. When the user has no
  list the optional chain gives \<^verbatim>\<open>undefined\<close> without reading the context, so the
  device counts as not trusted whatever the request holds. When the user has a list,
  \<^verbatim>\<open>context.device\<close> is read: a request without a context object throws there, which
  is the result \<open>None\<close>.
\<close>

definition isDeviceTrusted :: "user \<Rightarrow> login_context option \<Rightarrow> bool option" where
  "isDeviceTrusted u ctx =
     (case trustedDevices u of
        None \<Rightarrow> Some False
      | Some ds \<Rightarrow>
          (case ctx of
             None \<Rightarrow> None
           | Some c \<Rightarrow> Some (case device c of None \<Rightarrow> False | Some d \<Rightarrow> d \<in> set ds)))"

text \<open>
  Lines 150 to 164: the reset token and the alert for a device that is not trusted. The
  context is what the request holds, \<open>None\<close> when it holds none. The result is the
  user object, the store, the mail calls so far, and whether the step returned (\<open>True\<close>)
  or threw, in the device check or in the alert.
\<close>

definition newDeviceCheck ::
  "env \<Rightarrow> nat \<Rightarrow> user \<Rightarrow> login_context option \<Rightarrow> user list
     \<Rightarrow> user \<times> user list \<times> mail list \<times> bool" where
  "newDeviceCheck env i u ctx db =
     (case isDeviceTrusted u ctx of
        None \<Rightarrow> (u, db, [], False)
      | Some True \<Rightarrow> (u, db, [], True)
      | Some False \<Rightarrow>
        let resetToken = toHex (randomBytes env 20);
            resetTokenExpiresAt = dateNow env AtResetIssue + 30 * 60 * 1000;
            u1 = u\<lparr>resetPasswordToken := Some resetToken,
                   resetPasswordExpiresAt := Some resetTokenExpiresAt\<rparr>;
            m = NewDeviceLoginAlert (email u1) (name u1) ctx (resetLink env resetToken)
        in (u1, save i u1 db, [m], deliver env m))"

definition loginPayload :: "user \<Rightarrow> user_json" where
  "loginPayload u =
     (spreadDoc u)\<lparr>j_password := None, j_trustedIPs := None, j_trustedDevices := None,
       j_locations := None, j_behavioralProfile := None, j_riskScore := None\<rparr>"

text \<open>Lines 169 to 228: the three branches on the risk score.\<close>

definition riskDecision ::
  "env \<Rightarrow> nat \<Rightarrow> user \<Rightarrow> login_context option \<Rightarrow> user list \<Rightarrow> mail list \<Rightarrow> int
     \<Rightarrow> outcome" where
  "riskDecision env i u ctx db out risk =
     (if risk \<ge> 10 then
        let m = SuspiciousActivityWarning (email u) (name u) ctx risk
        in if deliver env m then
             \<lparr>response = failure 403
                ''Suspicious activity detected, login blocked for your security. Check your email for details.'',
              store = db, outbox = out @ [m]\<rparr>
           else \<lparr>response = failure 500 ''Server error'', store = db, outbox = out @ [m]\<rparr>
      else if risk \<ge> 5 then
        let code = generateVerificationCode env;
            u1 = u\<lparr>verificationToken := Some code,
                   verificationTokenExpiresAt := Some (dateNow env AtCodeIssue + 5 * 60 * 1000)\<rparr>;
            db1 = save i u1 db;
            m = TwoFactorAuthEmail (email u1) (name u1) code ctx
        in if \<not> deliver env m then
             \<lparr>response = failure 500 ''Server error'', store = db1, outbox = out @ [m]\<rparr>
           else (case updateContextProfile env i u1 ctx risk db1 of
              None \<Rightarrow>
                \<lparr>response = failure 500 ''Server error'', store = db1, outbox = out @ [m]\<rparr>
            | Some (u2, db2) \<Rightarrow>
                \<lparr>response = \<lparr>status = 200,
                   json = TwoFactorRequired ''Two-factor authentication required'' (email u2),
                   cookie = None\<rparr>,
                 store = db2, outbox = out @ [m]\<rparr>)
      else
        let u1 = u\<lparr>lastLogin := Some (dateNow env AtLastLogin)\<rparr>
        in (case updateContextProfile env i u1 ctx risk db of
              None \<Rightarrow> \<lparr>response = failure 500 ''Server error'', store = db, outbox = out\<rparr>
            | Some (u2, db2) \<Rightarrow>
                \<lparr>response = \<lparr>status = 200,
                   json = WithUser ''Logged in successfully'' (loginPayload u2),
                   cookie = Some (uid u2)\<rparr>,
                 store = save i u2 db2, outbox = out\<rparr>))"

definition login :: "env \<Rightarrow> user list \<Rightarrow> login_body \<Rightarrow> outcome" where
  "login env db b =
     (if falsy (body_email b) \<or> falsy (body_password b) then
        \<lparr>response = failure 400 ''All fields are required!'', store = db, outbox = []\<rparr>
      else if falsy (body_captcha b) then
        \<lparr>response = failure 400 ''Captcha is required!'', store = db, outbox = []\<rparr>
      else (case findOne (\<lambda>u. email u = str (body_email b)) db of
        None \<Rightarrow> \<lparr>response = failure 400 ''User not found!'', store = db, outbox = []\<rparr>
      | Some (i, u) \<Rightarrow>
          if \<not> bcryptCompare env (str (body_password b)) (password u) then
            \<lparr>response = failure 400 ''Wrong Password!'', store = db, outbox = []\<rparr>
          else if \<not> verifyCaptcha env (str (body_captcha b)) then
            \<lparr>response = \<lparr>status = 403, json = ErrorOnly ''Bot detected'', cookie = None\<rparr>,
             store = db, outbox = []\<rparr>
          else
            (case newDeviceCheck env i u (body_context b) db of
               (u1, db1, out1, returned) \<Rightarrow>
                 if \<not> returned then
                   \<lparr>response = failure 500 ''Server error'', store = db1, outbox = out1\<rparr>
                 else (case evaluateContext env (body_context b) u1 of
                    None \<Rightarrow>
                      \<lparr>response = failure 500 ''Server error'', store = db1, outbox = out1\<rparr>
                  | Some risk \<Rightarrow> riskDecision env i u1 (body_context b) db1 out1 risk))))"

section \<open>The token handlers\<close>

definition verificationLive :: "string \<Rightarrow> int \<Rightarrow> user \<Rightarrow> bool" where
  "verificationLive verificationCode now u =
     (verificationToken u = Some verificationCode \<and> gt (verificationTokenExpiresAt u) now)"

definition verifyEmail :: "env \<Rightarrow> user list \<Rightarrow> string \<Rightarrow> outcome" where
  "verifyEmail env db verificationCode =
     (case findOne (verificationLive verificationCode (dateNow env AtQuery)) db of
        None \<Rightarrow> \<lparr>response = failure 400 ''Invalid or expired verification code'',
                  store = db, outbox = []\<rparr>
      | Some (i, u) \<Rightarrow>
          let u1 = u\<lparr>isVerified := True, verificationToken := None,
                     verificationTokenExpiresAt := None\<rparr>;
              m = WelcomeEmail (email u1) (name u1)
          in if \<not> deliver env m then
               \<lparr>response = failure 500 ''Server error'', store = save i u1 db, outbox = [m]\<rparr>
             else
               \<lparr>response = \<lparr>status = 200,
                  json = WithUser ''Email verified successfully''
                    ((spreadDoc u1)\<lparr>j_password := None\<rparr>),
                  cookie = None\<rparr>,
                store = save i u1 db, outbox = [m]\<rparr>)"

definition resendVerificationCode :: "env \<Rightarrow> user list \<Rightarrow> string option \<Rightarrow> outcome" where
  "resendVerificationCode env db e =
     (if falsy e then
        \<lparr>response = failure 400 ''Email is required!'', store = db, outbox = []\<rparr>
      else (case findOne (\<lambda>u. email u = str e) db of
        None \<Rightarrow> \<lparr>response = failure 400 ''User not found!'', store = db, outbox = []\<rparr>
      | Some (i, u) \<Rightarrow>
          if isVerified u then
            \<lparr>response = failure 400 ''User already verified!'', store = db, outbox = []\<rparr>
          else
            let code = generateVerificationCode env;
                u1 = u\<lparr>verificationToken := Some code,
                       verificationTokenExpiresAt := Some (dateNow env AtCodeIssue + 60 * 1000)\<rparr>;
                m = VerificationEmail (email u1) code
            in if \<not> deliver env m then
                 \<lparr>response = failure 500 ''Server error'', store = save i u1 db, outbox = [m]\<rparr>
               else
                 \<lparr>response = \<lparr>status = 200,
                    json = Message True ''Verification code resent successfully'',
                    cookie = None\<rparr>,
                  store = save i u1 db, outbox = [m]\<rparr>))"

text \<open>
  \<^verbatim>\<open>forgotPassword\<close> answers a request without an email with status 400 but does not
  return there: the lookup and what follows still run, and the response the client has
  got stays the first one. The email of the request is a string here, empty when the
  request has none.
\<close>

definition forgotPassword :: "env \<Rightarrow> user list \<Rightarrow> string \<Rightarrow> outcome" where
  "forgotPassword env db e =
     (let first = (if e = [] then Some (failure 400 ''Email is required!'') else None)
      in (case findOne (\<lambda>u. email u = e) db of
        None \<Rightarrow>
          \<lparr>response = (case first of Some r \<Rightarrow> r
                                  | None \<Rightarrow> failure 400 ''User not found!''),
           store = db, outbox = []\<rparr>
      | Some (i, u) \<Rightarrow>
          let resetToken = toHex (randomBytes env 20);
              resetTokenExpiresAt = dateNow env AtResetIssue + 30 * 60 * 1000;
              u1 = u\<lparr>resetPasswordToken := Some resetToken,
                     resetPasswordExpiresAt := Some resetTokenExpiresAt\<rparr>;
              m = ResetPasswordEmail (email u1) (resetLink env resetToken)
          in \<lparr>response = (case first of Some r \<Rightarrow> r
                 | None \<Rightarrow> \<lparr>status = 200,
                     json = Message True ''Password reset token sent to your email'',
                     cookie = None\<rparr>),
              store = save i u1 db, outbox = [m]\<rparr>))"

definition resetTokenLive :: "string \<Rightarrow> int \<Rightarrow> user \<Rightarrow> bool" where
  "resetTokenLive token now u =
     (resetPasswordToken u = Some token \<and> gt (resetPasswordExpiresAt u) now)"

definition resetPassword :: "env \<Rightarrow> user list \<Rightarrow> string \<Rightarrow> string option \<Rightarrow> outcome" where
  "resetPassword env db token newPassword =
     (if falsy newPassword then
        \<lparr>response = failure 400 ''New password is required!'', store = db, outbox = []\<rparr>
      else (case findOne (resetTokenLive token (dateNow env AtQuery)) db of
        None \<Rightarrow> \<lparr>response = failure 400 ''Invalid or expired reset token'',
                  store = db, outbox = []\<rparr>
      | Some (i, u) \<Rightarrow>
          let u1 = u\<lparr>password := bcryptHash env (str newPassword),
                     resetPasswordToken := None, resetPasswordExpiresAt := None\<rparr>
          in \<lparr>response = \<lparr>status = 200, json = Message True ''Password reset successfully'',
                 cookie = None\<rparr>,
              store = save i u1 db, outbox = [ResetSuccessEmail (email u1)]\<rparr>))"

definition codeLive :: "string \<Rightarrow> string \<Rightarrow> int \<Rightarrow> user \<Rightarrow> bool" where
  "codeLive e verificationCode now u =
     (email u = e \<and> verificationToken u = Some verificationCode
      \<and> gt (verificationTokenExpiresAt u) now)"

definition verifyTwoFactorAuth ::
  "env \<Rightarrow> user list \<Rightarrow> string option \<Rightarrow> string option \<Rightarrow> outcome" where
  "verifyTwoFactorAuth env db e verificationCode =
     (if falsy e \<or> falsy verificationCode then
        \<lparr>response = failure 400 ''Email and verification code are required!'',
         store = db, outbox = []\<rparr>
      else (case findOne (codeLive (str e) (str verificationCode) (dateNow env AtQuery)) db of
        None \<Rightarrow> \<lparr>response = failure 400 ''Invalid or expired verification code'',
                  store = db, outbox = []\<rparr>
      | Some (i, u) \<Rightarrow>
          let u1 = u\<lparr>verificationToken := None, verificationTokenExpiresAt := None\<rparr>
          in \<lparr>response = \<lparr>status = 200,
                 json = WithUser ''Two-factor authentication completed successfully''
                   (loginPayload u1),
                 cookie = Some (uid u1)\<rparr>,
              store = save i u1 db, outbox = []\<rparr>))"

section \<open>When a login attempt reaches the risk decision\<close>

text \<open>
  The checks of lines 120 to 147 all pass: email, password and captcha are given, the
  user \<open>u\<close> is found at place \<open>i\<close>, the password matches and the captcha is accepted.
\<close>

definition credentialsAccepted :: "env \<Rightarrow> user list \<Rightarrow> login_body \<Rightarrow> nat \<Rightarrow> user \<Rightarrow> bool" where
  "credentialsAccepted env db b i u =
     (\<not> falsy (body_email b) \<and> \<not> falsy (body_password b) \<and> \<not> falsy (body_captcha b)
      \<and> findOne (\<lambda>v. email v = str (body_email b)) db = Some (i, u)
      \<and> bcryptCompare env (str (body_password b)) (password u)
      \<and> verifyCaptcha env (str (body_captcha b)))"

text \<open>
  The attempt is scored: the checks pass, \<open>ctx\<close> is the context of the request
  (\<open>None\<close> when it has none), the new-device step returns, and the risk scorer returns
  the score \<open>S\<close>.
\<close>

definition scoredAt ::
  "env \<Rightarrow> user list \<Rightarrow> login_body \<Rightarrow> nat \<Rightarrow> user \<Rightarrow> login_context option \<Rightarrow> int
     \<Rightarrow> bool" where
  "scoredAt env db b i u ctx S =
     (credentialsAccepted env db b i u \<and> body_context b = ctx
      \<and> (case newDeviceCheck env i u ctx db of
            (u1, db1, out1, returned) \<Rightarrow> returned \<and> evaluateContext env ctx u1 = Some S))"

fun isNewDeviceAlert :: "mail \<Rightarrow> bool" where
  "isNewDeviceAlert (NewDeviceLoginAlert e n ctx link) = True"
| "isNewDeviceAlert m = False"

section \<open>A sample account and sample collaborators\<close>

definition home :: login_context where
  "home = \<lparr>ip = Some ''1.2.3.4'', device = Some ''chrome-macos-abc'',
            location = Some \<lparr>latitude = 28, longitude = 77\<rparr>,
            typingSpeed = Some 40, loginHours = Some 10\<rparr>"

definition alice :: user where
  "alice = \<lparr>uid = 7, accountNumber = ''1000000001'', ifscCode = ''BANK0001'', balance = 0,
             email = ''alice@example.org'', password = ''hash:secret'', name = ''Alice'',
             isVerified = False, lastLogin = None,
             verificationToken = None, verificationTokenExpiresAt = None,
             resetPasswordToken = None, resetPasswordExpiresAt = None,
             trustedIPs = [''1.2.3.4''], trustedDevices = Some [''chrome-macos-abc''],
             locations = [\<lparr>lat = 28, lon = 77\<rparr>],
             contextLogs = [\<lparr>log_ip = ''1.2.3.4'', log_device = ''chrome-macos-abc'',
               log_location = \<lparr>log_lat = 28, log_lon = 77, locationName = ''Delhi''\<rparr>,
               timestamp = 0, log_riskScore = 0\<rparr>],
             behavioralProfile = \<lparr>baseTypingSpeed = 40, baseLoginHours = [10]\<rparr>,
             riskScore = 0\<rparr>"

text \<open>
  Sample collaborators: the scorer returns \<open>risk\<close>, the clock reads \<open>now\<close>, the code
  generator returns \<open>code\<close>, every random byte is \<open>byte\<close>, every mail is delivered, and
  the fold records the score and adds the device of the context to the trusted devices.
\<close>

definition demoFold :: "trust_store \<Rightarrow> login_context option \<Rightarrow> int \<Rightarrow> trust_store option" where
  "demoFold ts ctx S =
     Some (ts\<lparr>ts_trustedDevices :=
                 (case ctx of
                    None \<Rightarrow> ts_trustedDevices ts
                  | Some c \<Rightarrow>
                      (case device c of
                         None \<Rightarrow> ts_trustedDevices ts
                       | Some d \<Rightarrow>
                           (case ts_trustedDevices ts of
                              None \<Rightarrow> Some [d]
                            | Some ds \<Rightarrow> Some (if d \<in> set ds then ds else d # ds)))),
               ts_riskScore := S\<rparr>)"

definition demoEnv :: "int option \<Rightarrow> int \<Rightarrow> string \<Rightarrow> 8 word \<Rightarrow> env" where
  "demoEnv risk now code byte =
     \<lparr>bcryptCompare = (\<lambda>p h. h = ''hash:'' @ p), bcryptHash = (\<lambda>p. ''hash:'' @ p),
      verifyCaptcha = (\<lambda>c. c = ''human''), evaluateContext = (\<lambda>ctx u. risk),
      foldContext = demoFold, generateVerificationCode = code,
      randomBytes = (\<lambda>n. replicate n byte), dateNow = (\<lambda>r. now),
      clientUrl = ''https://bank.example'', deliver = (\<lambda>m. True)\<rparr>"

definition attempt :: "login_context option \<Rightarrow> login_body" where
  "attempt c = \<lparr>body_email = Some ''alice@example.org'', body_password = Some ''secret'',
                 body_context = c, body_captcha = Some ''human''\<rparr>"

section \<open>Facts about the library functions\<close>

lemma findOne_Some:
  "findOne q db = Some (i, u) \<Longrightarrow> i < length db \<and> db ! i = u \<and> q u"
proof (induction db arbitrary: i)
  case Nil
  then show ?case by simp
next
  case (Cons v vs)
  then show ?case
    by (auto split: if_splits option.splits)
qed

lemma findOne_None: "findOne q db = None \<longleftrightarrow> (\<forall>u \<in> set db. \<not> q u)"
  by (induction db) (auto split: option.splits)

section \<open>Facts about login\<close>

lemma map_trustStore_save:
  "i < length db \<Longrightarrow> trustStore v = trustStore (db ! i) \<Longrightarrow>
   map trustStore (save i v db) = map trustStore db"
  by (auto simp: save_def list_eq_iff_nth_eq nth_list_update)

lemma newDeviceCheck_cases:
  assumes "newDeviceCheck env i u ctx db = (u1, db1, out1, returned)"
  shows "(isDeviceTrusted u ctx = None \<and> u1 = u \<and> db1 = db \<and> out1 = [] \<and> \<not> returned)
       \<or> (isDeviceTrusted u ctx = Some True \<and> u1 = u \<and> db1 = db \<and> out1 = [] \<and> returned)
       \<or> (isDeviceTrusted u ctx = Some False
          \<and> u1 = u\<lparr>resetPasswordToken := Some (toHex (randomBytes env 20)),
                    resetPasswordExpiresAt := Some (dateNow env AtResetIssue + 30 * 60 * 1000)\<rparr>
          \<and> db1 = save i u1 db
          \<and> out1 = [NewDeviceLoginAlert (email u) (name u) ctx
                       (resetLink env (toHex (randomBytes env 20)))]
          \<and> returned = deliver env (NewDeviceLoginAlert (email u) (name u) ctx
                       (resetLink env (toHex (randomBytes env 20)))))"
  using assms by (auto simp: newDeviceCheck_def Let_def split: option.splits bool.splits)

lemma newDeviceCheck_keeps:
  assumes "newDeviceCheck env i u ctx db = (u1, db1, out1, returned)"
    and "i < length db" and "db ! i = u"
  shows "trustStore u1 = trustStore u" and "email u1 = email u" and "name u1 = name u"
    and "uid u1 = uid u" and "map trustStore db1 = map trustStore db"
    and "length db1 = length db" and "db1 ! i = u1"
proof -
  from newDeviceCheck_cases [OF assms(1)]
  have u1: "u1 = u \<or> u1 = u\<lparr>resetPasswordToken := Some (toHex (randomBytes env 20)),
                    resetPasswordExpiresAt := Some (dateNow env AtResetIssue + 30 * 60 * 1000)\<rparr>"
    and db1: "(u1 = u \<and> db1 = db) \<or> db1 = save i u1 db"
    by auto
  from u1 show ts: "trustStore u1 = trustStore u" by (auto simp: trustStore_def)
  from u1 show "email u1 = email u" by auto
  from u1 show "name u1 = name u" by auto
  from u1 show "uid u1 = uid u" by auto
  from ts assms(3) have "trustStore u1 = trustStore (db ! i)" by simp
  with db1 assms(2) show "map trustStore db1 = map trustStore db"
    by (auto simp: map_trustStore_save)
  from db1 show "length db1 = length db" by (auto simp: save_def)
  from db1 assms(2,3) show "db1 ! i = u1" by (auto simp: save_def)
qed

lemma login_accepted:
  assumes "credentialsAccepted env db b i u" and "body_context b = ctx"
  shows "login env db b =
     (case newDeviceCheck env i u ctx db of
        (u1, db1, out1, returned) \<Rightarrow>
          if \<not> returned then
            \<lparr>response = failure 500 ''Server error'', store = db1, outbox = out1\<rparr>
          else (case evaluateContext env ctx u1 of
             None \<Rightarrow> \<lparr>response = failure 500 ''Server error'', store = db1, outbox = out1\<rparr>
           | Some risk \<Rightarrow> riskDecision env i u1 ctx db1 out1 risk))"
  using assms(1) unfolding assms(2) [symmetric]
  by (simp add: login_def credentialsAccepted_def)

lemma login_scored:
  assumes "scoredAt env db b i u ctx S"
    and "newDeviceCheck env i u ctx db = (u1, db1, out1, returned)"
  shows "login env db b = riskDecision env i u1 ctx db1 out1 S"
proof -
  from assms have acc: "credentialsAccepted env db b i u" and c: "body_context b = ctx"
    and r: "returned" and e: "evaluateContext env ctx u1 = Some S"
    by (simp_all add: scoredAt_def)
  show ?thesis
    by (simp add: login_accepted [OF acc c] assms(2) r e)
qed

lemma accepted_found:
  "credentialsAccepted env db b i u \<Longrightarrow> i < length db \<and> db ! i = u"
  by (auto simp: credentialsAccepted_def dest: findOne_Some)

section \<open>The three branches of the decision\<close>

text \<open>
  C1. A login attempt that is scored with \<open>S \<ge> 10\<close> is blocked. The response is a
  rejection: status 403 with the message of the block when the alert is sent, status 500
  when sending the alert throws. The last mail call is the suspicious-activity warning
  with the context and the score. No session cookie is set, and the TrustStore of every
  stored user is what it was.
\<close>

theorem blocked_at_ten:
  assumes "scoredAt env db b i u ctx S" and "10 \<le> S"
  shows "\<not> success (json (response (login env db b)))
       \<and> (status (response (login env db b)) = 403 \<or> status (response (login env db b)) = 500)
       \<and> (deliver env (SuspiciousActivityWarning (email u) (name u) ctx S) \<longrightarrow>
            response (login env db b) = failure 403
              ''Suspicious activity detected, login blocked for your security. Check your email for details.'')
       \<and> outbox (login env db b) \<noteq> []
       \<and> last (outbox (login env db b)) = SuspiciousActivityWarning (email u) (name u) ctx S
       \<and> cookie (response (login env db b)) = None
       \<and> map trustStore (store (login env db b)) = map trustStore db"
proof -
  obtain u1 db1 out1 returned
    where nd: "newDeviceCheck env i u ctx db = (u1, db1, out1, returned)"
    by (cases "newDeviceCheck env i u ctx db") auto
  from assms(1) have "credentialsAccepted env db b i u"
    by (simp add: scoredAt_def)
  then have found: "i < length db" "db ! i = u"
    by (simp_all add: accepted_found)
  note keep = newDeviceCheck_keeps [OF nd found]
  have eq: "login env db b = riskDecision env i u1 ctx db1 out1 S"
    by (rule login_scored [OF assms(1) nd])
  show ?thesis
    using assms(2) keep(2,3,5)
    by (simp add: eq riskDecision_def Let_def failure_def)
qed

theorem blocked_at_ten_witness:
  "scoredAt (demoEnv (Some 12) 1000 ''123456'' 0xAB) [alice]
      (attempt (Some (home\<lparr>device := Some ''phone''\<rparr>))) 0 alice
      (Some (home\<lparr>device := Some ''phone''\<rparr>)) 12
   \<and> (10::int) \<le> 12
   \<and> response (login (demoEnv (Some 12) 1000 ''123456'' 0xAB) [alice]
        (attempt (Some (home\<lparr>device := Some ''phone''\<rparr>))))
      = failure 403
          ''Suspicious activity detected, login blocked for your security. Check your email for details.''
   \<and> map trustStore (store (login (demoEnv (Some 12) 1000 ''123456'' 0xAB) [alice]
        (attempt (Some (home\<lparr>device := Some ''phone''\<rparr>))))) = [trustStore alice]"
proof -
  have h: "scoredAt (demoEnv (Some 12) 1000 ''123456'' 0xAB) [alice]
      (attempt (Some (home\<lparr>device := Some ''phone''\<rparr>))) 0 alice
      (Some (home\<lparr>device := Some ''phone''\<rparr>)) 12"
    by (simp add: scoredAt_def credentialsAccepted_def newDeviceCheck_def isDeviceTrusted_def
        demoEnv_def attempt_def alice_def home_def falsy_def str_def Let_def)
  have d: "deliver (demoEnv (Some 12) 1000 ''123456'' 0xAB) m" for m
    by (simp add: demoEnv_def)
  from blocked_at_ten [OF h] d show ?thesis using h by simp
qed

lemma trustStore_withTrustStore: "trustStore (withTrustStore ts v) = ts"
  by (simp add: trustStore_def withTrustStore_def)

lemma withTrustStore_keeps:
  "email (withTrustStore ts v) = email v"
  "name (withTrustStore ts v) = name v"
  "uid (withTrustStore ts v) = uid v"
  "verificationToken (withTrustStore ts v) = verificationToken v"
  "verificationTokenExpiresAt (withTrustStore ts v) = verificationTokenExpiresAt v"
  "resetPasswordToken (withTrustStore ts v) = resetPasswordToken v"
  "resetPasswordExpiresAt (withTrustStore ts v) = resetPasswordExpiresAt v"
  "isVerified (withTrustStore ts v) = isVerified v"
  by (simp_all add: withTrustStore_def)

lemma trustStore_token_update:
  "trustStore (v\<lparr>verificationToken := a, verificationTokenExpiresAt := c\<rparr>) = trustStore v"
  "trustStore (v\<lparr>lastLogin := l\<rparr>) = trustStore v"
  by (simp_all add: trustStore_def)

text \<open>
  C2. A login attempt that is scored with \<open>5 \<le> S < 10\<close> needs the second factor. The
  fresh code is stored on the user with an expiry five minutes after the clock reading at
  issue, the two-factor mail with that code is the last mail call, and no session cookie
  is set. When the mail sender returns and the fold returns \<open>ts\<close>, the stored TrustStore
  of the user is \<open>ts\<close> and the response asks for the second factor: the context is
  folded in before any second-factor check.
\<close>

theorem two_factor_between_five_and_ten:
  assumes "scoredAt env db b i u ctx S" and "5 \<le> S" and "S < 10"
  shows "verificationToken (store (login env db b) ! i) = Some (generateVerificationCode env)
       \<and> verificationTokenExpiresAt (store (login env db b) ! i)
           = Some (dateNow env AtCodeIssue + 5 * 60 * 1000)
       \<and> outbox (login env db b) \<noteq> []
       \<and> last (outbox (login env db b))
           = TwoFactorAuthEmail (email u) (name u) (generateVerificationCode env) ctx
       \<and> cookie (response (login env db b)) = None
       \<and> (deliver env (TwoFactorAuthEmail (email u) (name u) (generateVerificationCode env) ctx)
            \<longrightarrow> (\<forall>ts. foldContext env (trustStore u) ctx S = Some ts \<longrightarrow>
                  trustStore (store (login env db b) ! i) = ts
                \<and> response (login env db b)
                    = \<lparr>status = 200,
                       json = TwoFactorRequired ''Two-factor authentication required'' (email u),
                       cookie = None\<rparr>))"
proof -
  obtain u1 db1 out1 returned
    where nd: "newDeviceCheck env i u ctx db = (u1, db1, out1, returned)"
    by (cases "newDeviceCheck env i u ctx db") auto
  from assms(1) have "credentialsAccepted env db b i u"
    by (simp add: scoredAt_def)
  then have found: "i < length db" "db ! i = u"
    by (simp_all add: accepted_found)
  note keep = newDeviceCheck_keeps [OF nd found]
  have eq: "login env db b = riskDecision env i u1 ctx db1 out1 S"
    by (rule login_scored [OF assms(1) nd])
  from found(1) keep(6) have i: "i < length db1" by simp
  show ?thesis
    using assms(2,3) keep(1,2,3) i
    by (auto simp: eq riskDecision_def Let_def failure_def updateContextProfile_def save_def
        trustStore_withTrustStore withTrustStore_keeps trustStore_token_update
        split: option.splits)
qed

theorem two_factor_between_five_and_ten_witness:
  "scoredAt (demoEnv (Some 7) 1000 ''123456'' 0xAB) [alice]
      (attempt (Some (home\<lparr>device := Some ''phone''\<rparr>))) 0 alice
      (Some (home\<lparr>device := Some ''phone''\<rparr>)) 7
   \<and> (5::int) \<le> 7 \<and> (7::int) < 10
   \<and> verificationToken (store (login (demoEnv (Some 7) 1000 ''123456'' 0xAB) [alice]
        (attempt (Some (home\<lparr>device := Some ''phone''\<rparr>)))) ! 0) = Some ''123456''
   \<and> verificationTokenExpiresAt (store (login (demoEnv (Some 7) 1000 ''123456'' 0xAB) [alice]
        (attempt (Some (home\<lparr>device := Some ''phone''\<rparr>)))) ! 0) = Some 301000
   \<and> ts_trustedDevices (trustStore (store (login (demoEnv (Some 7) 1000 ''123456'' 0xAB) [alice]
        (attempt (Some (home\<lparr>device := Some ''phone''\<rparr>)))) ! 0))
       = Some [''phone'', ''chrome-macos-abc'']
   \<and> response (login (demoEnv (Some 7) 1000 ''123456'' 0xAB) [alice]
        (attempt (Some (home\<lparr>device := Some ''phone''\<rparr>))))
       = \<lparr>status = 200,
          json = TwoFactorRequired ''Two-factor authentication required'' ''alice@example.org'',
          cookie = None\<rparr>"
proof -
  have h: "scoredAt (demoEnv (Some 7) 1000 ''123456'' 0xAB) [alice]
      (attempt (Some (home\<lparr>device := Some ''phone''\<rparr>))) 0 alice
      (Some (home\<lparr>device := Some ''phone''\<rparr>)) 7"
    by (simp add: scoredAt_def credentialsAccepted_def newDeviceCheck_def isDeviceTrusted_def
        demoEnv_def attempt_def alice_def home_def falsy_def str_def Let_def)
  have d: "deliver (demoEnv (Some 7) 1000 ''123456'' 0xAB) m" for m
    by (simp add: demoEnv_def)
  have f: "foldContext (demoEnv (Some 7) 1000 ''123456'' 0xAB) (trustStore alice)
             (Some (home\<lparr>device := Some ''phone''\<rparr>)) 7
           = Some ((trustStore alice)\<lparr>ts_trustedDevices := Some [''phone'', ''chrome-macos-abc''],
                                   ts_riskScore := 7\<rparr>)"
    by (simp add: demoEnv_def demoFold_def home_def trustStore_def alice_def)
  have g: "generateVerificationCode (demoEnv (Some 7) 1000 ''123456'' 0xAB) = ''123456''"
    "dateNow (demoEnv (Some 7) 1000 ''123456'' 0xAB) AtCodeIssue = 1000"
    "email alice = ''alice@example.org''"
    by (simp_all add: demoEnv_def alice_def)
  from two_factor_between_five_and_ten [OF h] d f g show ?thesis using h by simp
qed

section \<open>Second-factor and email verification\<close>

lemma verifyTwoFactorAuth_found:
  assumes "\<not> falsy e" and "\<not> falsy c"
    and "findOne (codeLive (str e) (str c) (dateNow env AtQuery)) db = Some (i, u)"
  shows "verifyTwoFactorAuth env db e c =
     \<lparr>response = \<lparr>status = 200,
        json = WithUser ''Two-factor authentication completed successfully''
          (loginPayload (u\<lparr>verificationToken := None, verificationTokenExpiresAt := None\<rparr>)),
        cookie = Some (uid u)\<rparr>,
      store = save i (u\<lparr>verificationToken := None, verificationTokenExpiresAt := None\<rparr>) db,
      outbox = []\<rparr>"
  using assms by (simp add: verifyTwoFactorAuth_def Let_def)

lemma verifyTwoFactorAuth_not_found:
  assumes "\<not> falsy e" and "\<not> falsy c"
    and "findOne (codeLive (str e) (str c) (dateNow env AtQuery)) db = None"
  shows "verifyTwoFactorAuth env db e c =
     \<lparr>response = failure 400 ''Invalid or expired verification code'', store = db, outbox = []\<rparr>"
  using assms by (simp add: verifyTwoFactorAuth_def)

lemma verifyTwoFactorAuth_missing:
  assumes "falsy e \<or> falsy c"
  shows "verifyTwoFactorAuth env db e c =
     \<lparr>response = failure 400 ''Email and verification code are required!'',
      store = db, outbox = []\<rparr>"
  using assms by (auto simp: verifyTwoFactorAuth_def)

text \<open>
  C3, as the code has it. The user document has one verification-token field and no
  purpose: \<^verbatim>\<open>verifyTwoFactorAuth\<close> succeeds if and only if email and code are given and
  some stored user with that email holds that code with an expiry after the clock
  reading, whichever flow stored the code. On success the token fields of that user are
  cleared and the session cookie is set for that user. When email and code are given and
  no such user exists the answer is always the same
  \<open>Invalid or expired verification code\<close>, with nothing stored and no cookie.
\<close>

theorem second_factor_iff_live_code:
  "(success (json (response (verifyTwoFactorAuth env db e c)))
      \<longleftrightarrow> \<not> falsy e \<and> \<not> falsy c
          \<and> (\<exists>u \<in> set db. codeLive (str e) (str c) (dateNow env AtQuery) u))
   \<and> (\<not> falsy e \<and> \<not> falsy c
        \<and> (\<exists>u \<in> set db. codeLive (str e) (str c) (dateNow env AtQuery) u)
      \<longrightarrow> (\<exists>i u. i < length db \<and> db ! i = u
             \<and> codeLive (str e) (str c) (dateNow env AtQuery) u
             \<and> verifyTwoFactorAuth env db e c =
                 \<lparr>response = \<lparr>status = 200,
                    json = WithUser ''Two-factor authentication completed successfully''
                      (loginPayload
                        (u\<lparr>verificationToken := None, verificationTokenExpiresAt := None\<rparr>)),
                    cookie = Some (uid u)\<rparr>,
                  store = db[i := u\<lparr>verificationToken := None,
                                     verificationTokenExpiresAt := None\<rparr>],
                  outbox = []\<rparr>))
   \<and> (\<not> falsy e \<and> \<not> falsy c
        \<and> \<not> (\<exists>u \<in> set db. codeLive (str e) (str c) (dateNow env AtQuery) u)
      \<longrightarrow> verifyTwoFactorAuth env db e c =
            \<lparr>response = failure 400 ''Invalid or expired verification code'',
             store = db, outbox = []\<rparr>)"
proof (cases "falsy e \<or> falsy c")
  case True
  then show ?thesis
    by (auto simp: verifyTwoFactorAuth_missing failure_def)
next
  case False
  then have p: "\<not> falsy e" "\<not> falsy c" by simp_all
  show ?thesis
  proof (cases "findOne (codeLive (str e) (str c) (dateNow env AtQuery)) db")
    case None
    then have "\<not> (\<exists>u \<in> set db. codeLive (str e) (str c) (dateNow env AtQuery) u)"
      by (simp add: findOne_None)
    then show ?thesis
      using p by (simp add: verifyTwoFactorAuth_not_found [OF p None] failure_def)
  next
    case (Some r)
    obtain i u where r: "r = (i, u)" by (cases r)
    from Some r have f: "findOne (codeLive (str e) (str c) (dateNow env AtQuery)) db = Some (i, u)"
      by simp
    from findOne_Some [OF f] have g: "i < length db" "db ! i = u"
      "codeLive (str e) (str c) (dateNow env AtQuery) u"
      by simp_all
    from g have ex: "\<exists>u \<in> set db. codeLive (str e) (str c) (dateNow env AtQuery) u"
      by (metis nth_mem)
    have "\<exists>j v. j < length db \<and> db ! j = v
             \<and> codeLive (str e) (str c) (dateNow env AtQuery) v
             \<and> verifyTwoFactorAuth env db e c =
                 \<lparr>response = \<lparr>status = 200,
                    json = WithUser ''Two-factor authentication completed successfully''
                      (loginPayload
                        (v\<lparr>verificationToken := None, verificationTokenExpiresAt := None\<rparr>)),
                    cookie = Some (uid v)\<rparr>,
                  store = db[j := v\<lparr>verificationToken := None,
                                     verificationTokenExpiresAt := None\<rparr>],
                  outbox = []\<rparr>"
      using g verifyTwoFactorAuth_found [OF p f] by (auto simp: save_def)
    then show ?thesis
      using p ex by (simp add: verifyTwoFactorAuth_found [OF p f])
  qed
qed


theorem second_factor_iff_live_code_witness:
  "\<not> falsy (Some ''alice@example.org'') \<and> \<not> falsy (Some ''123456'')
   \<and> (\<exists>u \<in> set [alice\<lparr>verificationToken := Some ''123456'',
                          verificationTokenExpiresAt := Some 301000\<rparr>].
        codeLive (str (Some ''alice@example.org'')) (str (Some ''123456''))
          (dateNow (demoEnv None 2000 ''000000'' 0) AtQuery) u)
   \<and> success (json (response (verifyTwoFactorAuth (demoEnv None 2000 ''000000'' 0)
        [alice\<lparr>verificationToken := Some ''123456'', verificationTokenExpiresAt := Some 301000\<rparr>]
        (Some ''alice@example.org'') (Some ''123456''))))
   \<and> \<not> (\<exists>u \<in> set [alice\<lparr>verificationToken := Some ''123456'',
                          verificationTokenExpiresAt := Some 301000\<rparr>].
        codeLive (str (Some ''alice@example.org'')) (str (Some ''654321''))
          (dateNow (demoEnv None 2000 ''000000'' 0) AtQuery) u)
   \<and> verifyTwoFactorAuth (demoEnv None 2000 ''000000'' 0)
        [alice\<lparr>verificationToken := Some ''123456'', verificationTokenExpiresAt := Some 301000\<rparr>]
        (Some ''alice@example.org'') (Some ''654321'')
      = \<lparr>response = failure 400 ''Invalid or expired verification code'',
         store = [alice\<lparr>verificationToken := Some ''123456'',
                         verificationTokenExpiresAt := Some 301000\<rparr>],
         outbox = []\<rparr>"
proof -
  have p: "\<not> falsy (Some ''alice@example.org'')" "\<not> falsy (Some ''123456'')"
    "\<not> falsy (Some ''654321'')"
    by (simp_all add: falsy_def)
  have live: "\<exists>u \<in> set [alice\<lparr>verificationToken := Some ''123456'',
                          verificationTokenExpiresAt := Some 301000\<rparr>].
        codeLive (str (Some ''alice@example.org'')) (str (Some ''123456''))
          (dateNow (demoEnv None 2000 ''000000'' 0) AtQuery) u"
    by (simp add: codeLive_def gt_def str_def demoEnv_def alice_def)
  have wrong: "\<not> (\<exists>u \<in> set [alice\<lparr>verificationToken := Some ''123456'',
                          verificationTokenExpiresAt := Some 301000\<rparr>].
        codeLive (str (Some ''alice@example.org'')) (str (Some ''654321''))
          (dateNow (demoEnv None 2000 ''000000'' 0) AtQuery) u)"
    by (simp add: codeLive_def gt_def str_def demoEnv_def alice_def)
  from second_factor_iff_live_code [of "demoEnv None 2000 ''000000'' 0"
      "[alice\<lparr>verificationToken := Some ''123456'', verificationTokenExpiresAt := Some 301000\<rparr>]"
      "Some ''alice@example.org''" "Some ''123456''"] p live
  have a: "success (json (response (verifyTwoFactorAuth (demoEnv None 2000 ''000000'' 0)
        [alice\<lparr>verificationToken := Some ''123456'', verificationTokenExpiresAt := Some 301000\<rparr>]
        (Some ''alice@example.org'') (Some ''123456''))))"
    by blast
  from second_factor_iff_live_code [of "demoEnv None 2000 ''000000'' 0"
      "[alice\<lparr>verificationToken := Some ''123456'', verificationTokenExpiresAt := Some 301000\<rparr>]"
      "Some ''alice@example.org''" "Some ''654321''"] p wrong
  have b: "verifyTwoFactorAuth (demoEnv None 2000 ''000000'' 0)
        [alice\<lparr>verificationToken := Some ''123456'', verificationTokenExpiresAt := Some 301000\<rparr>]
        (Some ''alice@example.org'') (Some ''654321'')
      = \<lparr>response = failure 400 ''Invalid or expired verification code'',
         store = [alice\<lparr>verificationToken := Some ''123456'',
                         verificationTokenExpiresAt := Some 301000\<rparr>],
         outbox = []\<rparr>"
    by blast
  from p live wrong a b show ?thesis by blast
qed

text \<open>
  C3 as stated fails: a code that \<^verbatim>\<open>resendVerificationCode\<close> issued for email
  verification, on an account that never had a second-factor token, passes
  \<^verbatim>\<open>verifyTwoFactorAuth\<close> and gets the session cookie.
\<close>

theorem email_code_passes_second_factor:
  "verificationToken alice = None
   \<and> response (resendVerificationCode (demoEnv None 1000 ''123456'' 0) [alice]
        (Some ''alice@example.org''))
      = \<lparr>status = 200, json = Message True ''Verification code resent successfully'',
         cookie = None\<rparr>
   \<and> status (response (verifyTwoFactorAuth (demoEnv None 2000 ''000000'' 0)
        (store (resendVerificationCode (demoEnv None 1000 ''123456'' 0) [alice]
           (Some ''alice@example.org'')))
        (Some ''alice@example.org'') (Some ''123456''))) = 200
   \<and> cookie (response (verifyTwoFactorAuth (demoEnv None 2000 ''000000'' 0)
        (store (resendVerificationCode (demoEnv None 1000 ''123456'' 0) [alice]
           (Some ''alice@example.org'')))
        (Some ''alice@example.org'') (Some ''123456''))) = Some 7"
  by (simp add: resendVerificationCode_def verifyTwoFactorAuth_def codeLive_def gt_def
      falsy_def str_def save_def demoEnv_def alice_def Let_def)

lemma expired_untouched_by_second_factor:
  assumes "j < length db"
    and "\<forall>t. verificationTokenExpiresAt (db ! j) = Some t \<longrightarrow> t \<le> dateNow env AtQuery"
  shows "store (verifyTwoFactorAuth env db e x) ! j = db ! j"
proof (cases "falsy e \<or> falsy x")
  case True
  then show ?thesis by (simp add: verifyTwoFactorAuth_missing)
next
  case False
  then have p: "\<not> falsy e" "\<not> falsy x" by simp_all
  show ?thesis
  proof (cases "findOne (codeLive (str e) (str x) (dateNow env AtQuery)) db")
    case None
    then show ?thesis by (simp add: verifyTwoFactorAuth_not_found [OF p])
  next
    case (Some r)
    obtain i u where r: "r = (i, u)" by (cases r)
    from Some r have f: "findOne (codeLive (str e) (str x) (dateNow env AtQuery)) db = Some (i, u)"
      by simp
    from findOne_Some [OF f] have "db ! i = u"
      and "gt (verificationTokenExpiresAt u) (dateNow env AtQuery)"
      by (simp_all add: codeLive_def)
    with assms(2) have "j \<noteq> i"
      by (auto simp: gt_def split: option.splits)
    then show ?thesis
      by (simp add: verifyTwoFactorAuth_found [OF p f] save_def)
  qed
qed

lemma expired_untouched_by_verifyEmail:
  assumes "j < length db"
    and "\<forall>t. verificationTokenExpiresAt (db ! j) = Some t \<longrightarrow> t \<le> dateNow env AtQuery"
  shows "store (verifyEmail env db c) ! j = db ! j"
proof (cases "findOne (verificationLive c (dateNow env AtQuery)) db")
  case None
  then show ?thesis by (simp add: verifyEmail_def)
next
  case (Some r)
  obtain i u where r: "r = (i, u)" by (cases r)
  from Some r have f: "findOne (verificationLive c (dateNow env AtQuery)) db = Some (i, u)"
    by simp
  from findOne_Some [OF f] have "db ! i = u"
    and "gt (verificationTokenExpiresAt u) (dateNow env AtQuery)"
    by (simp_all add: verificationLive_def)
  with assms(2) have "j \<noteq> i"
    by (auto simp: gt_def split: option.splits)
  then show ?thesis
    by (simp add: verifyEmail_def f Let_def save_def)
qed

text \<open>
  C4, as the code has it. A user whose token has an expiry that is not after the clock
  reading is never validated by it: \<^verbatim>\<open>verifyTwoFactorAuth\<close> and \<^verbatim>\<open>verifyEmail\<close>
  leave that user as stored, whatever is submitted. \<^verbatim>\<open>verifyTwoFactorAuth\<close> rejects
  the code \<open>c\<close> for an email when every stored user with that email that holds \<open>c\<close>
  is expired. \<^verbatim>\<open>verifyEmail\<close> has no email to look at: it rejects the code \<open>c\<close> when
  every stored user that holds \<open>c\<close> is expired.
\<close>

theorem expired_code_never_validates:
  "((\<forall>u \<in> set db. email u = str e \<longrightarrow> verificationToken u = Some c \<longrightarrow>
        (\<forall>t. verificationTokenExpiresAt u = Some t \<longrightarrow> t \<le> dateNow env AtQuery))
      \<longrightarrow> status (response (verifyTwoFactorAuth env db e (Some c))) = 400
          \<and> \<not> success (json (response (verifyTwoFactorAuth env db e (Some c))))
          \<and> cookie (response (verifyTwoFactorAuth env db e (Some c))) = None
          \<and> store (verifyTwoFactorAuth env db e (Some c)) = db)
   \<and> ((\<forall>u \<in> set db. verificationToken u = Some c \<longrightarrow>
        (\<forall>t. verificationTokenExpiresAt u = Some t \<longrightarrow> t \<le> dateNow env AtQuery))
      \<longrightarrow> verifyEmail env db c =
            \<lparr>response = failure 400 ''Invalid or expired verification code'',
             store = db, outbox = []\<rparr>)
   \<and> (\<forall>j < length db.
        (\<forall>t. verificationTokenExpiresAt (db ! j) = Some t \<longrightarrow> t \<le> dateNow env AtQuery)
        \<longrightarrow> store (verifyTwoFactorAuth env db e x) ! j = db ! j
            \<and> store (verifyEmail env db c) ! j = db ! j)"
proof (intro conjI impI allI)
  assume a: "\<forall>u \<in> set db. email u = str e \<longrightarrow> verificationToken u = Some c \<longrightarrow>
        (\<forall>t. verificationTokenExpiresAt u = Some t \<longrightarrow> t \<le> dateNow env AtQuery)"
  then have "\<forall>u \<in> set db. \<not> codeLive (str e) c (dateNow env AtQuery) u"
    by (auto simp: codeLive_def gt_def split: option.splits)
  then have tf: "findOne (codeLive (str e) c (dateNow env AtQuery)) db = None"
    by (simp add: findOne_None)
  then show "status (response (verifyTwoFactorAuth env db e (Some c))) = 400"
    and "\<not> success (json (response (verifyTwoFactorAuth env db e (Some c))))"
    and "cookie (response (verifyTwoFactorAuth env db e (Some c))) = None"
    and "store (verifyTwoFactorAuth env db e (Some c)) = db"
    by (simp_all add: verifyTwoFactorAuth_def failure_def str_def)
next
  assume "\<forall>u \<in> set db. verificationToken u = Some c \<longrightarrow>
        (\<forall>t. verificationTokenExpiresAt u = Some t \<longrightarrow> t \<le> dateNow env AtQuery)"
  then have "\<forall>u \<in> set db. \<not> verificationLive c (dateNow env AtQuery) u"
    by (auto simp: verificationLive_def gt_def split: option.splits)
  then have "findOne (verificationLive c (dateNow env AtQuery)) db = None"
    by (simp add: findOne_None)
  then show "verifyEmail env db c =
      \<lparr>response = failure 400 ''Invalid or expired verification code'', store = db, outbox = []\<rparr>"
    by (simp add: verifyEmail_def)
next
  fix j
  assume "j < length db"
    and "\<forall>t. verificationTokenExpiresAt (db ! j) = Some t \<longrightarrow> t \<le> dateNow env AtQuery"
  then show "store (verifyTwoFactorAuth env db e x) ! j = db ! j"
    and "store (verifyEmail env db c) ! j = db ! j"
    by (simp_all add: expired_untouched_by_second_factor expired_untouched_by_verifyEmail)
qed

theorem expired_code_never_validates_witness:
  "verificationTokenExpiresAt (alice\<lparr>verificationToken := Some ''123456'', verificationTokenExpiresAt := Some 1000\<rparr>) = Some (dateNow (demoEnv None 1000 ''000000'' 0) AtQuery)
   \<and> status (response (verifyTwoFactorAuth (demoEnv None 1000 ''000000'' 0) [alice\<lparr>verificationToken := Some ''123456'', verificationTokenExpiresAt := Some 1000\<rparr>, alice\<lparr>uid := 8, email := ''bob@example.org'', name := ''Bob'',
          verificationToken := Some ''123456'', verificationTokenExpiresAt := Some 9000\<rparr>]
        (Some ''alice@example.org'') (Some ''123456''))) = 400
   \<and> cookie (response (verifyTwoFactorAuth (demoEnv None 1000 ''000000'' 0) [alice\<lparr>verificationToken := Some ''123456'', verificationTokenExpiresAt := Some 1000\<rparr>, alice\<lparr>uid := 8, email := ''bob@example.org'', name := ''Bob'',
          verificationToken := Some ''123456'', verificationTokenExpiresAt := Some 9000\<rparr>]
        (Some ''alice@example.org'') (Some ''123456''))) = None
   \<and> store (verifyTwoFactorAuth (demoEnv None 1000 ''000000'' 0) [alice\<lparr>verificationToken := Some ''123456'', verificationTokenExpiresAt := Some 1000\<rparr>, alice\<lparr>uid := 8, email := ''bob@example.org'', name := ''Bob'',
          verificationToken := Some ''123456'', verificationTokenExpiresAt := Some 9000\<rparr>]
        (Some ''alice@example.org'') (Some ''123456'')) = [alice\<lparr>verificationToken := Some ''123456'', verificationTokenExpiresAt := Some 1000\<rparr>, alice\<lparr>uid := 8, email := ''bob@example.org'', name := ''Bob'',
          verificationToken := Some ''123456'', verificationTokenExpiresAt := Some 9000\<rparr>]
   \<and> verifyEmail (demoEnv None 1000 ''000000'' 0) [alice\<lparr>verificationToken := Some ''123456'', verificationTokenExpiresAt := Some 1000\<rparr>] ''123456''
      = \<lparr>response = failure 400 ''Invalid or expired verification code'',
         store = [alice\<lparr>verificationToken := Some ''123456'', verificationTokenExpiresAt := Some 1000\<rparr>], outbox = []\<rparr>
   \<and> store (verifyEmail (demoEnv None 1000 ''000000'' 0) [alice\<lparr>verificationToken := Some ''123456'', verificationTokenExpiresAt := Some 1000\<rparr>, alice\<lparr>uid := 8, email := ''bob@example.org'', name := ''Bob'',
          verificationToken := Some ''123456'', verificationTokenExpiresAt := Some 9000\<rparr>] ''123456'') ! 0 = alice\<lparr>verificationToken := Some ''123456'', verificationTokenExpiresAt := Some 1000\<rparr>"
proof -
  have n: "verificationTokenExpiresAt (alice\<lparr>verificationToken := Some ''123456'', verificationTokenExpiresAt := Some 1000\<rparr>)
      = Some (dateNow (demoEnv None 1000 ''000000'' 0) AtQuery)"
    by (simp add: demoEnv_def)
  have h1: "\<forall>u \<in> set [alice\<lparr>verificationToken := Some ''123456'', verificationTokenExpiresAt := Some 1000\<rparr>, alice\<lparr>uid := 8, email := ''bob@example.org'', name := ''Bob'',
          verificationToken := Some ''123456'', verificationTokenExpiresAt := Some 9000\<rparr>]. email u = str (Some ''alice@example.org'') \<longrightarrow>
      verificationToken u = Some ''123456'' \<longrightarrow>
        (\<forall>t. verificationTokenExpiresAt u = Some t \<longrightarrow>
           t \<le> dateNow (demoEnv None 1000 ''000000'' 0) AtQuery)"
    by (simp add: demoEnv_def str_def alice_def)
  have h2: "\<forall>u \<in> set [alice\<lparr>verificationToken := Some ''123456'', verificationTokenExpiresAt := Some 1000\<rparr>]. verificationToken u = Some ''123456'' \<longrightarrow>
        (\<forall>t. verificationTokenExpiresAt u = Some t \<longrightarrow>
           t \<le> dateNow (demoEnv None 1000 ''000000'' 0) AtQuery)"
    by (simp add: demoEnv_def)
  have h3: "(0::nat) < length [alice\<lparr>verificationToken := Some ''123456'', verificationTokenExpiresAt := Some 1000\<rparr>, alice\<lparr>uid := 8, email := ''bob@example.org'', name := ''Bob'',
          verificationToken := Some ''123456'', verificationTokenExpiresAt := Some 9000\<rparr>]"
    "\<forall>t. verificationTokenExpiresAt ([alice\<lparr>verificationToken := Some ''123456'', verificationTokenExpiresAt := Some 1000\<rparr>, alice\<lparr>uid := 8, email := ''bob@example.org'', name := ''Bob'',
          verificationToken := Some ''123456'', verificationTokenExpiresAt := Some 9000\<rparr>] ! 0) = Some t \<longrightarrow>
           t \<le> dateNow (demoEnv None 1000 ''000000'' 0) AtQuery"
    by (simp_all add: demoEnv_def)
  from expired_code_never_validates [of "[alice\<lparr>verificationToken := Some ''123456'', verificationTokenExpiresAt := Some 1000\<rparr>, alice\<lparr>uid := 8, email := ''bob@example.org'', name := ''Bob'',
          verificationToken := Some ''123456'', verificationTokenExpiresAt := Some 9000\<rparr>]" "Some ''alice@example.org''" "''123456''"
      "demoEnv None 1000 ''000000'' 0", THEN conjunct1] h1
  have a: "status (response (verifyTwoFactorAuth (demoEnv None 1000 ''000000'' 0) [alice\<lparr>verificationToken := Some ''123456'', verificationTokenExpiresAt := Some 1000\<rparr>, alice\<lparr>uid := 8, email := ''bob@example.org'', name := ''Bob'',
          verificationToken := Some ''123456'', verificationTokenExpiresAt := Some 9000\<rparr>]
        (Some ''alice@example.org'') (Some ''123456''))) = 400"
    and b: "cookie (response (verifyTwoFactorAuth (demoEnv None 1000 ''000000'' 0) [alice\<lparr>verificationToken := Some ''123456'', verificationTokenExpiresAt := Some 1000\<rparr>, alice\<lparr>uid := 8, email := ''bob@example.org'', name := ''Bob'',
          verificationToken := Some ''123456'', verificationTokenExpiresAt := Some 9000\<rparr>]
        (Some ''alice@example.org'') (Some ''123456''))) = None"
    and c: "store (verifyTwoFactorAuth (demoEnv None 1000 ''000000'' 0) [alice\<lparr>verificationToken := Some ''123456'', verificationTokenExpiresAt := Some 1000\<rparr>, alice\<lparr>uid := 8, email := ''bob@example.org'', name := ''Bob'',
          verificationToken := Some ''123456'', verificationTokenExpiresAt := Some 9000\<rparr>]
        (Some ''alice@example.org'') (Some ''123456'')) = [alice\<lparr>verificationToken := Some ''123456'', verificationTokenExpiresAt := Some 1000\<rparr>, alice\<lparr>uid := 8, email := ''bob@example.org'', name := ''Bob'',
          verificationToken := Some ''123456'', verificationTokenExpiresAt := Some 9000\<rparr>]"
    by blast+
  from expired_code_never_validates [of "[alice\<lparr>verificationToken := Some ''123456'', verificationTokenExpiresAt := Some 1000\<rparr>]" _ "''123456''"
      "demoEnv None 1000 ''000000'' 0", THEN conjunct2, THEN conjunct1] h2
  have d: "verifyEmail (demoEnv None 1000 ''000000'' 0) [alice\<lparr>verificationToken := Some ''123456'', verificationTokenExpiresAt := Some 1000\<rparr>] ''123456''
      = \<lparr>response = failure 400 ''Invalid or expired verification code'',
         store = [alice\<lparr>verificationToken := Some ''123456'', verificationTokenExpiresAt := Some 1000\<rparr>], outbox = []\<rparr>"
    by blast
  from expired_code_never_validates [of "[alice\<lparr>verificationToken := Some ''123456'', verificationTokenExpiresAt := Some 1000\<rparr>, alice\<lparr>uid := 8, email := ''bob@example.org'', name := ''Bob'',
          verificationToken := Some ''123456'', verificationTokenExpiresAt := Some 9000\<rparr>]" _ "''123456''"
      "demoEnv None 1000 ''000000'' 0", THEN conjunct2, THEN conjunct2] h3
  have "store (verifyEmail (demoEnv None 1000 ''000000'' 0) [alice\<lparr>verificationToken := Some ''123456'', verificationTokenExpiresAt := Some 1000\<rparr>, alice\<lparr>uid := 8, email := ''bob@example.org'', name := ''Bob'',
          verificationToken := Some ''123456'', verificationTokenExpiresAt := Some 9000\<rparr>] ''123456'') ! 0
      = [alice\<lparr>verificationToken := Some ''123456'', verificationTokenExpiresAt := Some 1000\<rparr>, alice\<lparr>uid := 8, email := ''bob@example.org'', name := ''Bob'',
          verificationToken := Some ''123456'', verificationTokenExpiresAt := Some 9000\<rparr>] ! 0"
    by blast
  then have e: "store (verifyEmail (demoEnv None 1000 ''000000'' 0) [alice\<lparr>verificationToken := Some ''123456'', verificationTokenExpiresAt := Some 1000\<rparr>, alice\<lparr>uid := 8, email := ''bob@example.org'', name := ''Bob'',
          verificationToken := Some ''123456'', verificationTokenExpiresAt := Some 9000\<rparr>] ''123456'') ! 0
      = alice\<lparr>verificationToken := Some ''123456'', verificationTokenExpiresAt := Some 1000\<rparr>"
    by simp
  from n a b c d e show ?thesis by blast
qed

text \<open>
  C4 as stated fails for \<^verbatim>\<open>verifyEmail\<close>: the submitted code equals the stored,
  expired token of the first user, and the answer is a success, because a second user
  holds the same code unexpired.
\<close>

theorem expired_code_accepted_by_verifyEmail:
  "verificationToken (alice\<lparr>verificationToken := Some ''123456'', verificationTokenExpiresAt := Some 1000\<rparr>) = Some ''123456''
   \<and> verificationTokenExpiresAt (alice\<lparr>verificationToken := Some ''123456'', verificationTokenExpiresAt := Some 1000\<rparr>) = Some 1000
   \<and> dateNow (demoEnv None 5000 ''000000'' 0) AtQuery = 5000
   \<and> status (response (verifyEmail (demoEnv None 5000 ''000000'' 0) [alice\<lparr>verificationToken := Some ''123456'', verificationTokenExpiresAt := Some 1000\<rparr>, alice\<lparr>uid := 8, email := ''bob@example.org'', name := ''Bob'',
          verificationToken := Some ''123456'', verificationTokenExpiresAt := Some 9000\<rparr>] ''123456'')) = 200
   \<and> success (json (response (verifyEmail (demoEnv None 5000 ''000000'' 0) [alice\<lparr>verificationToken := Some ''123456'', verificationTokenExpiresAt := Some 1000\<rparr>, alice\<lparr>uid := 8, email := ''bob@example.org'', name := ''Bob'',
          verificationToken := Some ''123456'', verificationTokenExpiresAt := Some 9000\<rparr>]
        ''123456'')))"
  by (simp add: verifyEmail_def verificationLive_def gt_def save_def demoEnv_def alice_def
      Let_def)

section \<open>The new-device side channel\<close>

lemma riskDecision_outbox:
  "\<exists>rest. outbox (riskDecision env i u ctx db out risk) = out @ rest
         \<and> filter isNewDeviceAlert rest = []"
  by (auto simp: riskDecision_def Let_def split: option.splits)

lemma riskDecision_reset_fields:
  assumes "i < length db" and "db ! i = u"
  shows "resetPasswordToken (store (riskDecision env i u ctx db out risk) ! i)
           = resetPasswordToken u
       \<and> resetPasswordExpiresAt (store (riskDecision env i u ctx db out risk) ! i)
           = resetPasswordExpiresAt u"
  using assms
  by (auto simp: riskDecision_def Let_def updateContextProfile_def save_def
      withTrustStore_keeps split: option.splits)

lemma length_toHex: "length (toHex bs) = 2 * length bs"
  by (induction bs) (simp_all add: toHex_def)

lemma login_new_device:
  assumes "credentialsAccepted env db b i u" and "body_context b = ctx"
    and "isDeviceTrusted u ctx = Some False"
  shows "login env db b =
     (let resetToken = toHex (randomBytes env 20);
          u1 = u\<lparr>resetPasswordToken := Some resetToken,
                 resetPasswordExpiresAt := Some (dateNow env AtResetIssue + 30 * 60 * 1000)\<rparr>;
          m = NewDeviceLoginAlert (email u) (name u) ctx (resetLink env resetToken)
      in if \<not> deliver env m then
           \<lparr>response = failure 500 ''Server error'', store = save i u1 db, outbox = [m]\<rparr>
         else (case evaluateContext env ctx u1 of
            None \<Rightarrow>
              \<lparr>response = failure 500 ''Server error'', store = save i u1 db, outbox = [m]\<rparr>
          | Some risk \<Rightarrow> riskDecision env i u1 ctx (save i u1 db) [m] risk))"
  using assms(3)
  by (simp add: login_accepted [OF assms(1,2)] newDeviceCheck_def Let_def)

lemma login_new_device_effects:
  assumes "credentialsAccepted env db b i u" and "body_context b = ctx"
    and "isDeviceTrusted u ctx = Some False"
  shows "resetPasswordToken (store (login env db b) ! i) = Some (toHex (randomBytes env 20))"
    and "resetPasswordExpiresAt (store (login env db b) ! i)
           = Some (dateNow env AtResetIssue + 30 * 60 * 1000)"
    and "\<exists>rest. outbox (login env db b)
           = NewDeviceLoginAlert (email u) (name u) ctx
               (resetLink env (toHex (randomBytes env 20))) # rest
         \<and> filter isNewDeviceAlert rest = []"
proof -
  let ?u1 = "u\<lparr>resetPasswordToken := Some (toHex (randomBytes env 20)),
                resetPasswordExpiresAt := Some (dateNow env AtResetIssue + 30 * 60 * 1000)\<rparr>"
  let ?m = "NewDeviceLoginAlert (email u) (name u) ctx
               (resetLink env (toHex (randomBytes env 20)))"
  from accepted_found [OF assms(1)] have i: "i < length db" by simp
  then have s: "i < length (save i ?u1 db)" "save i ?u1 db ! i = ?u1"
    by (simp_all add: save_def)
  note rf = riskDecision_reset_fields [OF s, of env ctx "[?m]"]
  note eq = login_new_device [OF assms]
  show "resetPasswordToken (store (login env db b) ! i) = Some (toHex (randomBytes env 20))"
    using s(2) rf by (simp add: eq Let_def split: option.splits)
  show "resetPasswordExpiresAt (store (login env db b) ! i)
           = Some (dateNow env AtResetIssue + 30 * 60 * 1000)"
    using s(2) rf by (simp add: eq Let_def split: option.splits)
  show "\<exists>rest. outbox (login env db b) = ?m # rest \<and> filter isNewDeviceAlert rest = []"
    using riskDecision_outbox [of env i ?u1 ctx "save i ?u1 db" "[?m]"]
    by (auto simp: eq Let_def split: option.splits)
qed

text \<open>
  C5. For a login attempt that passes the credential and captcha checks from a device
  that is not among the trusted devices, whatever the risk scorer returns: the reset
  token is the hexadecimal form of 20 random bytes (40 characters), it is stored on the
  user with an expiry 30 minutes after the clock reading, the new-device alert with the
  reset link is the first mail call and the only new-device alert of the attempt, and
  the risk decision runs afterwards on the user that already carries the token.
\<close>

theorem new_device_reset_before_scoring:
  assumes "credentialsAccepted env db b i u" and "body_context b = ctx"
    and "isDeviceTrusted u ctx = Some False"
  shows "login env db b =
     (let resetToken = toHex (randomBytes env 20);
          u1 = u\<lparr>resetPasswordToken := Some resetToken,
                 resetPasswordExpiresAt := Some (dateNow env AtResetIssue + 30 * 60 * 1000)\<rparr>;
          m = NewDeviceLoginAlert (email u) (name u) ctx (resetLink env resetToken)
      in if \<not> deliver env m then
           \<lparr>response = failure 500 ''Server error'', store = save i u1 db, outbox = [m]\<rparr>
         else (case evaluateContext env ctx u1 of
            None \<Rightarrow>
              \<lparr>response = failure 500 ''Server error'', store = save i u1 db, outbox = [m]\<rparr>
          | Some risk \<Rightarrow> riskDecision env i u1 ctx (save i u1 db) [m] risk))
   \<and> resetPasswordToken (store (login env db b) ! i) = Some (toHex (randomBytes env 20))
   \<and> resetPasswordExpiresAt (store (login env db b) ! i)
       = Some (dateNow env AtResetIssue + 30 * 60 * 1000)
   \<and> hd (outbox (login env db b))
       = NewDeviceLoginAlert (email u) (name u) ctx (resetLink env (toHex (randomBytes env 20)))
   \<and> length (filter isNewDeviceAlert (outbox (login env db b))) = 1
   \<and> (length (randomBytes env 20) = 20 \<longrightarrow> length (toHex (randomBytes env 20)) = 40)"
proof -
  from login_new_device_effects(3) [OF assms] obtain rest
    where "outbox (login env db b)
           = NewDeviceLoginAlert (email u) (name u) ctx
               (resetLink env (toHex (randomBytes env 20))) # rest"
      and "filter isNewDeviceAlert rest = []"
    by blast
  then have "hd (outbox (login env db b))
       = NewDeviceLoginAlert (email u) (name u) ctx (resetLink env (toHex (randomBytes env 20)))"
    and "length (filter isNewDeviceAlert (outbox (login env db b))) = 1"
    by simp_all
  then show ?thesis
    using login_new_device [OF assms] login_new_device_effects(1,2) [OF assms]
    by (simp add: length_toHex)
qed


theorem new_device_reset_before_scoring_witness:
  "credentialsAccepted (demoEnv (Some 0) 1000 ''123456'' 0xAB) [alice]
      (attempt (Some (home\<lparr>device := Some ''phone''\<rparr>))) 0 alice
   \<and> body_context (attempt (Some (home\<lparr>device := Some ''phone''\<rparr>)))
       = Some (home\<lparr>device := Some ''phone''\<rparr>)
   \<and> isDeviceTrusted alice (Some (home\<lparr>device := Some ''phone''\<rparr>)) = Some False
   \<and> length (randomBytes (demoEnv (Some 0) 1000 ''123456'' 0xAB) 20) = 20
   \<and> resetPasswordToken (store (login (demoEnv (Some 0) 1000 ''123456'' 0xAB) [alice]
        (attempt (Some (home\<lparr>device := Some ''phone''\<rparr>)))) ! 0)
       = Some ''abababababababababababababababababababab''
   \<and> resetPasswordExpiresAt (store (login (demoEnv (Some 0) 1000 ''123456'' 0xAB) [alice]
        (attempt (Some (home\<lparr>device := Some ''phone''\<rparr>)))) ! 0) = Some 1801000
   \<and> length (filter isNewDeviceAlert (outbox (login (demoEnv (Some 0) 1000 ''123456'' 0xAB)
        [alice] (attempt (Some (home\<lparr>device := Some ''phone''\<rparr>)))))) = 1
   \<and> length (toHex (randomBytes (demoEnv (Some 0) 1000 ''123456'' 0xAB) 20)) = 40"
proof -
  have a: "credentialsAccepted (demoEnv (Some 0) 1000 ''123456'' 0xAB) [alice]
      (attempt (Some (home\<lparr>device := Some ''phone''\<rparr>))) 0 alice"
    by (simp add: credentialsAccepted_def demoEnv_def attempt_def alice_def falsy_def str_def)
  have c: "body_context (attempt (Some (home\<lparr>device := Some ''phone''\<rparr>)))
       = Some (home\<lparr>device := Some ''phone''\<rparr>)"
    by (simp add: attempt_def)
  have t: "isDeviceTrusted alice (Some (home\<lparr>device := Some ''phone''\<rparr>)) = Some False"
    by (simp add: isDeviceTrusted_def alice_def home_def)
  have r: "randomBytes (demoEnv (Some 0) 1000 ''123456'' 0xAB) 20 = replicate 20 0xAB"
    "dateNow (demoEnv (Some 0) 1000 ''123456'' 0xAB) AtResetIssue = 1000"
    by (simp_all add: demoEnv_def)
  have x: "toHex (replicate 20 (0xAB :: 8 word)) = ''abababababababababababababababababababab''"
    by code_simp
  have l: "length (replicate 20 (0xAB :: 8 word)) = 20"
    by simp
  from new_device_reset_before_scoring [OF a c t, THEN conjunct2] a c t l show ?thesis
    by (simp add: r x)
qed

section \<open>Session credentials\<close>

lemma login_cookie_accepted:
  assumes "cookie (response (login env db b)) \<noteq> None"
  shows "\<exists>i u ctx. credentialsAccepted env db b i u \<and> body_context b = ctx"
  using assms
  by (auto simp: login_def credentialsAccepted_def failure_def split: if_splits option.splits)

lemma riskDecision_cookie:
  assumes "cookie (response (riskDecision env i u ctx db out S)) \<noteq> None"
  shows "S < 5 \<and> status (response (riskDecision env i u ctx db out S)) = 200
       \<and> (\<exists>p. json (response (riskDecision env i u ctx db out S))
                 = WithUser ''Logged in successfully'' p)
       \<and> cookie (response (riskDecision env i u ctx db out S)) = Some (uid u)"
  using assms
  by (auto simp: riskDecision_def Let_def failure_def updateContextProfile_def
      withTrustStore_keeps split: if_splits option.splits)

lemma login_cookie_scored:
  assumes "cookie (response (login env db b)) \<noteq> None"
  shows "\<exists>i u ctx S. scoredAt env db b i u ctx S \<and> S < 5
       \<and> status (response (login env db b)) = 200
       \<and> (\<exists>p. json (response (login env db b)) = WithUser ''Logged in successfully'' p)
       \<and> cookie (response (login env db b)) = Some (uid u)"
proof -
  from login_cookie_accepted [OF assms] obtain i u ctx
    where acc: "credentialsAccepted env db b i u" and c: "body_context b = ctx"
    by blast
  obtain u1 db1 out1 returned
    where nd: "newDeviceCheck env i u ctx db = (u1, db1, out1, returned)"
    by (cases "newDeviceCheck env i u ctx db") auto
  note eq = login_accepted [OF acc c]
  from assms have r: "returned"
    by (auto simp: eq nd failure_def split: if_splits)
  from assms r obtain S where e: "evaluateContext env ctx u1 = Some S"
    by (auto simp: eq nd failure_def split: option.splits)
  have sc: "scoredAt env db b i u ctx S"
    using acc c nd r e by (simp add: scoredAt_def)
  have l: "login env db b = riskDecision env i u1 ctx db1 out1 S"
    by (rule login_scored [OF sc nd])
  from accepted_found [OF acc] have found: "i < length db" "db ! i = u" by simp_all
  note keep = newDeviceCheck_keeps [OF nd found]
  from assms riskDecision_cookie [of env i u1 ctx db1 out1 S] keep(4) sc
  show ?thesis unfolding l by metis
qed

lemma scoredAt_unique:
  assumes "scoredAt env db b i u ctx S" and "scoredAt env db b i' u' ctx' S'"
  shows "S' = S"
  using assms by (auto simp: scoredAt_def credentialsAccepted_def)

text \<open>
  C6. Among the handlers of the login flow the session cookie is set in two places only.
  \<^verbatim>\<open>login\<close> sets it only in the response \<open>Logged in successfully\<close> of an attempt
  scored below 5, for the user that logged in; an attempt scored 5 or more, a response
  with status 403 and a two-factor-required response carry no cookie.
  \<^verbatim>\<open>verifyTwoFactorAuth\<close> sets it only when a stored user with the given email holds
  the given code unexpired, for that user. \<^verbatim>\<open>verifyEmail\<close>,
  \<^verbatim>\<open>resendVerificationCode\<close>, \<^verbatim>\<open>forgotPassword\<close> and \<^verbatim>\<open>resetPassword\<close> never set it.
\<close>

theorem session_only_when_allowed:
  "(cookie (response (login env db b)) \<noteq> None \<longrightarrow>
      (\<exists>i u ctx S. scoredAt env db b i u ctx S \<and> S < 5
         \<and> status (response (login env db b)) = 200
         \<and> (\<exists>p. json (response (login env db b)) = WithUser ''Logged in successfully'' p)
         \<and> cookie (response (login env db b)) = Some (uid u)))
   \<and> (\<forall>i u ctx S. scoredAt env db b i u ctx S \<and> 5 \<le> S \<longrightarrow>
         cookie (response (login env db b)) = None)
   \<and> (status (response (login env db b)) = 403 \<longrightarrow> cookie (response (login env db b)) = None)
   \<and> (\<forall>msg e. json (response (login env db b)) = TwoFactorRequired msg e \<longrightarrow>
         cookie (response (login env db b)) = None)
   \<and> (cookie (response (verifyTwoFactorAuth env db e c)) \<noteq> None \<longrightarrow>
         \<not> falsy e \<and> \<not> falsy c
         \<and> (\<exists>u \<in> set db. codeLive (str e) (str c) (dateNow env AtQuery) u
               \<and> cookie (response (verifyTwoFactorAuth env db e c)) = Some (uid u)))
   \<and> cookie (response (verifyEmail env db code)) = None
   \<and> cookie (response (resendVerificationCode env db e)) = None
   \<and> cookie (response (forgotPassword env db a)) = None
   \<and> cookie (response (resetPassword env db token newPassword)) = None"
proof -
  have 1: "cookie (response (login env db b)) \<noteq> None \<longrightarrow>
      (\<exists>i u ctx S. scoredAt env db b i u ctx S \<and> S < 5
         \<and> status (response (login env db b)) = 200
         \<and> (\<exists>p. json (response (login env db b)) = WithUser ''Logged in successfully'' p)
         \<and> cookie (response (login env db b)) = Some (uid u))"
    using login_cookie_scored by blast
  have 2: "\<forall>i u ctx S. scoredAt env db b i u ctx S \<and> 5 \<le> S \<longrightarrow>
         cookie (response (login env db b)) = None"
  proof (intro allI impI)
    fix i u ctx S
    assume a: "scoredAt env db b i u ctx S \<and> 5 \<le> S"
    show "cookie (response (login env db b)) = None"
    proof (rule ccontr)
      assume "cookie (response (login env db b)) \<noteq> None"
      from login_cookie_scored [OF this] obtain i' u' ctx' S'
        where "scoredAt env db b i' u' ctx' S'" and "S' < 5"
        by blast
      with a scoredAt_unique show False by fastforce
    qed
  qed
  have 3: "status (response (login env db b)) = 403 \<longrightarrow>
      cookie (response (login env db b)) = None"
    using login_cookie_scored [of env db b] by fastforce
  have 4: "\<forall>msg e. json (response (login env db b)) = TwoFactorRequired msg e \<longrightarrow>
         cookie (response (login env db b)) = None"
    using login_cookie_scored [of env db b] by fastforce
  have 5: "cookie (response (verifyTwoFactorAuth env db e c)) \<noteq> None \<longrightarrow>
         \<not> falsy e \<and> \<not> falsy c
         \<and> (\<exists>u \<in> set db. codeLive (str e) (str c) (dateNow env AtQuery) u
               \<and> cookie (response (verifyTwoFactorAuth env db e c)) = Some (uid u))"
  proof
    assume a: "cookie (response (verifyTwoFactorAuth env db e c)) \<noteq> None"
    then have p: "\<not> falsy e" "\<not> falsy c"
      by (auto simp: verifyTwoFactorAuth_def failure_def split: if_splits)
    from a p obtain i u
      where f: "findOne (codeLive (str e) (str c) (dateNow env AtQuery)) db = Some (i, u)"
      by (cases "findOne (codeLive (str e) (str c) (dateNow env AtQuery)) db")
        (auto simp: verifyTwoFactorAuth_not_found failure_def)
    from findOne_Some [OF f] have "u \<in> set db"
      and "codeLive (str e) (str c) (dateNow env AtQuery) u"
      by auto
    then show "\<not> falsy e \<and> \<not> falsy c
         \<and> (\<exists>u \<in> set db. codeLive (str e) (str c) (dateNow env AtQuery) u
               \<and> cookie (response (verifyTwoFactorAuth env db e c)) = Some (uid u))"
      using p by (auto simp: verifyTwoFactorAuth_found [OF p f])
  qed
  have 6: "cookie (response (verifyEmail env db code)) = None"
    by (simp add: verifyEmail_def Let_def failure_def split: option.splits)
  have 7: "cookie (response (resendVerificationCode env db e)) = None"
    by (simp add: resendVerificationCode_def Let_def failure_def split: option.splits)
  have 8: "cookie (response (forgotPassword env db a)) = None"
    by (simp add: forgotPassword_def Let_def failure_def split: option.splits)
  have 9: "cookie (response (resetPassword env db token newPassword)) = None"
    by (simp add: resetPassword_def Let_def failure_def split: option.splits)
  from 1 2 3 4 5 6 7 8 9 show ?thesis by blast
qed


theorem session_only_when_allowed_witness:
  "cookie (response (login (demoEnv (Some 0) 1000 ''123456'' 0xAB) [alice]
      (attempt (Some home)))) = Some 7
   \<and> (\<exists>i u ctx S. scoredAt (demoEnv (Some 0) 1000 ''123456'' 0xAB) [alice]
         (attempt (Some home)) i u ctx S \<and> S < 5)
   \<and> scoredAt (demoEnv (Some 7) 1000 ''123456'' 0xAB) [alice] (attempt (Some home)) 0 alice (Some home) 7
   \<and> cookie (response (login (demoEnv (Some 7) 1000 ''123456'' 0xAB) [alice]
        (attempt (Some home)))) = None"
proof -
  have k: "cookie (response (login (demoEnv (Some 0) 1000 ''123456'' 0xAB) [alice]
      (attempt (Some home)))) = Some 7"
    by (simp add: login_def newDeviceCheck_def riskDecision_def updateContextProfile_def
        isDeviceTrusted_def demoEnv_def demoFold_def attempt_def alice_def home_def
        falsy_def str_def save_def withTrustStore_def trustStore_def Let_def)
  then have k': "cookie (response (login (demoEnv (Some 0) 1000 ''123456'' 0xAB) [alice]
      (attempt (Some home)))) \<noteq> None"
    by simp
  from session_only_when_allowed [of "demoEnv (Some 0) 1000 ''123456'' 0xAB" "[alice]"
      "attempt (Some home)", THEN conjunct1] k'
  have ex: "\<exists>i u ctx S. scoredAt (demoEnv (Some 0) 1000 ''123456'' 0xAB) [alice]
         (attempt (Some home)) i u ctx S \<and> S < 5"
    by blast
  have h: "scoredAt (demoEnv (Some 7) 1000 ''123456'' 0xAB) [alice] (attempt (Some home))
      0 alice (Some home) 7"
    by (simp add: scoredAt_def credentialsAccepted_def newDeviceCheck_def isDeviceTrusted_def
        demoEnv_def attempt_def alice_def home_def falsy_def str_def Let_def)
  have "(5::int) \<le> 7" by simp
  with session_only_when_allowed [of "demoEnv (Some 7) 1000 ''123456'' 0xAB" "[alice]"
      "attempt (Some home)", THEN conjunct2, THEN conjunct1] h
  have n: "cookie (response (login (demoEnv (Some 7) 1000 ''123456'' 0xAB) [alice]
        (attempt (Some home)))) = None"
    by blast
  from k ex h n show ?thesis by blast
qed

section \<open>Requests with missing input\<close>

lemma login_missing_field:
  assumes "falsy (body_email b) \<or> falsy (body_password b) \<or> falsy (body_captcha b)"
  shows "status (response (login env db b)) = 400"
    and "\<not> success (json (response (login env db b)))"
    and "cookie (response (login env db b)) = None"
    and "store (login env db b) = db" and "outbox (login env db b) = []"
  using assms by (auto simp: login_def failure_def)

lemma login_missing_context:
  assumes "credentialsAccepted env db b i u" and "body_context b = None"
    and "trustedDevices u = Some ds"
  shows "login env db b =
     \<lparr>response = failure 500 ''Server error'', store = db, outbox = []\<rparr>"
  using assms(3)
  by (simp add: login_accepted [OF assms(1,2)] newDeviceCheck_def isDeviceTrusted_def)

text \<open>
  C7, as the code has it. \<^verbatim>\<open>login\<close> checks that email, password and captcha are
  given and nothing about the context. A request that lacks email, password or captcha
  is rejected with status 400, the store unchanged, no mail sent and no cookie set. A
  request without a context object that passes the earlier checks is rejected with
  status 500 and \<open>Server error\<close>, with nothing changed, when the stored user has a list
  of trusted devices. When the stored user has no such list the device check does not
  read the context: the reset token is stored and the new-device alert is called first,
  as for any device that is not trusted.
\<close>

theorem missing_input_rejected:
  "(falsy (body_email b) \<or> falsy (body_password b) \<or> falsy (body_captcha b) \<longrightarrow>
      status (response (login env db b)) = 400
      \<and> \<not> success (json (response (login env db b)))
      \<and> cookie (response (login env db b)) = None
      \<and> store (login env db b) = db \<and> outbox (login env db b) = [])
   \<and> (\<forall>i u ds. credentialsAccepted env db b i u \<and> body_context b = None
         \<and> trustedDevices u = Some ds \<longrightarrow>
      login env db b =
        \<lparr>response = failure 500 ''Server error'', store = db, outbox = []\<rparr>)
   \<and> (\<forall>i u. credentialsAccepted env db b i u \<and> body_context b = None
         \<and> trustedDevices u = None \<longrightarrow>
      resetPasswordToken (store (login env db b) ! i) = Some (toHex (randomBytes env 20))
      \<and> hd (outbox (login env db b))
          = NewDeviceLoginAlert (email u) (name u) None
              (resetLink env (toHex (randomBytes env 20))))"
proof (intro conjI allI impI)
  assume "falsy (body_email b) \<or> falsy (body_password b) \<or> falsy (body_captcha b)"
  from login_missing_field [OF this]
  show "status (response (login env db b)) = 400"
    and "\<not> success (json (response (login env db b)))"
    and "cookie (response (login env db b)) = None"
    and "store (login env db b) = db" and "outbox (login env db b) = []"
    by simp_all
next
  fix i u ds
  assume "credentialsAccepted env db b i u \<and> body_context b = None
      \<and> trustedDevices u = Some ds"
  then show "login env db b =
      \<lparr>response = failure 500 ''Server error'', store = db, outbox = []\<rparr>"
    using login_missing_context by blast
next
  fix i u
  assume a: "credentialsAccepted env db b i u \<and> body_context b = None
      \<and> trustedDevices u = None"
  then have acc: "credentialsAccepted env db b i u" and c: "body_context b = None"
    and t: "isDeviceTrusted u None = Some False"
    by (simp_all add: isDeviceTrusted_def)
  from login_new_device_effects(1) [OF acc c t]
  show "resetPasswordToken (store (login env db b) ! i) = Some (toHex (randomBytes env 20))" .
  from login_new_device_effects(3) [OF acc c t]
  show "hd (outbox (login env db b))
      = NewDeviceLoginAlert (email u) (name u) None (resetLink env (toHex (randomBytes env 20)))"
    by auto
qed

theorem missing_input_rejected_witness:
  "falsy (body_email ((attempt (Some home))\<lparr>body_email := None\<rparr>))
   \<and> status (response (login (demoEnv (Some 0) 1000 ''123456'' 0xAB) [alice]
        ((attempt (Some home))\<lparr>body_email := None\<rparr>))) = 400
   \<and> store (login (demoEnv (Some 0) 1000 ''123456'' 0xAB) [alice]
        ((attempt (Some home))\<lparr>body_email := None\<rparr>)) = [alice]
   \<and> credentialsAccepted (demoEnv (Some 0) 1000 ''123456'' 0xAB) [alice] (attempt None) 0 alice
   \<and> body_context (attempt None) = None
   \<and> trustedDevices alice = Some [''chrome-macos-abc'']
   \<and> login (demoEnv (Some 0) 1000 ''123456'' 0xAB) [alice] (attempt None)
      = \<lparr>response = failure 500 ''Server error'', store = [alice], outbox = []\<rparr>
   \<and> credentialsAccepted (demoEnv (Some 0) 1000 ''123456'' 0xAB) [alice\<lparr>trustedDevices := None\<rparr>] (attempt None) 0 (alice\<lparr>trustedDevices := None\<rparr>)
   \<and> trustedDevices (alice\<lparr>trustedDevices := None\<rparr>) = None
   \<and> resetPasswordToken (store (login (demoEnv (Some 0) 1000 ''123456'' 0xAB) [alice\<lparr>trustedDevices := None\<rparr>]
        (attempt None)) ! 0)
      = Some (toHex (randomBytes (demoEnv (Some 0) 1000 ''123456'' 0xAB) 20))"
proof -
  have f: "falsy (body_email ((attempt (Some home))\<lparr>body_email := None\<rparr>))"
    by (simp add: falsy_def)
  from missing_input_rejected [of "(attempt (Some home))\<lparr>body_email := None\<rparr>"
      "demoEnv (Some 0) 1000 ''123456'' 0xAB" "[alice]", THEN conjunct1] f
  have m: "status (response (login (demoEnv (Some 0) 1000 ''123456'' 0xAB) [alice]
        ((attempt (Some home))\<lparr>body_email := None\<rparr>))) = 400"
    and m': "store (login (demoEnv (Some 0) 1000 ''123456'' 0xAB) [alice]
        ((attempt (Some home))\<lparr>body_email := None\<rparr>)) = [alice]"
    by blast+
  have a: "credentialsAccepted (demoEnv (Some 0) 1000 ''123456'' 0xAB) [alice]
      (attempt None) 0 alice"
    by (simp add: credentialsAccepted_def demoEnv_def attempt_def alice_def falsy_def str_def)
  have c: "body_context (attempt None) = None"
    by (simp add: attempt_def)
  have t: "trustedDevices alice = Some [''chrome-macos-abc'']"
    by (simp add: alice_def)
  from missing_input_rejected [of "attempt None" "demoEnv (Some 0) 1000 ''123456'' 0xAB"
      "[alice]", THEN conjunct2, THEN conjunct1] a c t
  have s: "login (demoEnv (Some 0) 1000 ''123456'' 0xAB) [alice] (attempt None)
      = \<lparr>response = failure 500 ''Server error'', store = [alice], outbox = []\<rparr>"
    by blast
  have a': "credentialsAccepted (demoEnv (Some 0) 1000 ''123456'' 0xAB) [alice\<lparr>trustedDevices := None\<rparr>]
      (attempt None) 0 (alice\<lparr>trustedDevices := None\<rparr>)"
    by (simp add: credentialsAccepted_def demoEnv_def attempt_def alice_def falsy_def str_def)
  have t': "trustedDevices (alice\<lparr>trustedDevices := None\<rparr>) = None"
    by simp
  from missing_input_rejected [of "attempt None" "demoEnv (Some 0) 1000 ''123456'' 0xAB"
      "[alice\<lparr>trustedDevices := None\<rparr>]", THEN conjunct2, THEN conjunct2] a' c t'
  have k: "resetPasswordToken (store (login (demoEnv (Some 0) 1000 ''123456'' 0xAB) [alice\<lparr>trustedDevices := None\<rparr>]
        (attempt None)) ! 0)
      = Some (toHex (randomBytes (demoEnv (Some 0) 1000 ''123456'' 0xAB) 20))"
    by blast
  from f m m' a c t s a' t' k show ?thesis by blast
qed

text \<open>
  C7 as stated fails: a request whose context lacks the device passes for a device that
  is not trusted, so a reset token is stored and the new-device alert is sent; with a
  scorer that returns 3 the login then succeeds and the profile is updated.
\<close>

theorem missing_device_issues_token:
  "device (home\<lparr>device := None\<rparr>) = None
   \<and> resetPasswordToken alice = None
   \<and> resetPasswordToken (store (login (demoEnv (Some 3) 1000 ''123456'' 0xAB) [alice]
        (attempt (Some (home\<lparr>device := None\<rparr>)))) ! 0)
       = Some (toHex (replicate 20 0xAB))
   \<and> outbox (login (demoEnv (Some 3) 1000 ''123456'' 0xAB) [alice]
        (attempt (Some (home\<lparr>device := None\<rparr>))))
       = [NewDeviceLoginAlert ''alice@example.org'' ''Alice'' (Some (home\<lparr>device := None\<rparr>))
            (''https://bank.example/reset-password/'' @ toHex (replicate 20 0xAB))]
   \<and> status (response (login (demoEnv (Some 3) 1000 ''123456'' 0xAB) [alice]
        (attempt (Some (home\<lparr>device := None\<rparr>))))) = 200
   \<and> cookie (response (login (demoEnv (Some 3) 1000 ''123456'' 0xAB) [alice]
        (attempt (Some (home\<lparr>device := None\<rparr>))))) = Some 7
   \<and> trustStore (store (login (demoEnv (Some 3) 1000 ''123456'' 0xAB) [alice]
        (attempt (Some (home\<lparr>device := None\<rparr>)))) ! 0) \<noteq> trustStore alice"
  by (simp add: login_def newDeviceCheck_def riskDecision_def updateContextProfile_def
      isDeviceTrusted_def resetLink_def demoEnv_def demoFold_def attempt_def alice_def home_def
      falsy_def str_def save_def withTrustStore_def trustStore_def Let_def)

section \<open>One token field per kind\<close>

lemma forgotPassword_found:
  assumes "findOne (\<lambda>v. email v = e) db = Some (i, u)"
  shows "store (forgotPassword env db e) ! i
           = u\<lparr>resetPasswordToken := Some (toHex (randomBytes env 20)),
               resetPasswordExpiresAt := Some (dateNow env AtResetIssue + 30 * 60 * 1000)\<rparr>"
  using assms findOne_Some [OF assms]
  by (simp add: forgotPassword_def Let_def save_def)

text \<open>
  C8. The forgot-password flow and the new-device step of login write the same two
  fields of the user. After \<^verbatim>\<open>forgotPassword\<close> for a stored user, and after a login
  from an untrusted device that passes the credential checks, the user holds the newly
  drawn reset token with an expiry 30 minutes after the clock reading, whatever token
  the other flow had stored before; no other token is live on that user at any time.
\<close>

theorem reset_token_overwritten:
  "(\<forall>i u. findOne (\<lambda>v. email v = e) db = Some (i, u) \<longrightarrow>
       store (forgotPassword env db e) ! i
         = u\<lparr>resetPasswordToken := Some (toHex (randomBytes env 20)),
             resetPasswordExpiresAt := Some (dateNow env AtResetIssue + 30 * 60 * 1000)\<rparr>
       \<and> (\<forall>old now. old \<noteq> toHex (randomBytes env 20) \<longrightarrow>
             \<not> resetTokenLive old now (store (forgotPassword env db e) ! i)))
   \<and> (\<forall>i u ctx. credentialsAccepted env db b i u \<and> body_context b = ctx
         \<and> isDeviceTrusted u ctx = Some False \<longrightarrow>
       resetPasswordToken (store (login env db b) ! i) = Some (toHex (randomBytes env 20))
       \<and> resetPasswordExpiresAt (store (login env db b) ! i)
           = Some (dateNow env AtResetIssue + 30 * 60 * 1000)
       \<and> (\<forall>old now. old \<noteq> toHex (randomBytes env 20) \<longrightarrow>
             \<not> resetTokenLive old now (store (login env db b) ! i)))"
proof -
  have 1: "\<forall>i u. findOne (\<lambda>v. email v = e) db = Some (i, u) \<longrightarrow>
       store (forgotPassword env db e) ! i
         = u\<lparr>resetPasswordToken := Some (toHex (randomBytes env 20)),
             resetPasswordExpiresAt := Some (dateNow env AtResetIssue + 30 * 60 * 1000)\<rparr>
       \<and> (\<forall>old now. old \<noteq> toHex (randomBytes env 20) \<longrightarrow>
             \<not> resetTokenLive old now (store (forgotPassword env db e) ! i))"
    by (auto simp: forgotPassword_found resetTokenLive_def)
  have 2: "\<forall>i u ctx. credentialsAccepted env db b i u \<and> body_context b = ctx
         \<and> isDeviceTrusted u ctx = Some False \<longrightarrow>
       resetPasswordToken (store (login env db b) ! i) = Some (toHex (randomBytes env 20))
       \<and> resetPasswordExpiresAt (store (login env db b) ! i)
           = Some (dateNow env AtResetIssue + 30 * 60 * 1000)
       \<and> (\<forall>old now. old \<noteq> toHex (randomBytes env 20) \<longrightarrow>
             \<not> resetTokenLive old now (store (login env db b) ! i))"
    by (auto simp: login_new_device_effects(1,2) resetTokenLive_def)
  from 1 2 show ?thesis by blast
qed

theorem reset_token_overwritten_witness:
  "store (login (demoEnv (Some 12) 1000 ''123456'' 0xAB) [alice]
      (attempt (Some (home\<lparr>device := Some ''phone''\<rparr>))))
     = [alice\<lparr>resetPasswordToken := Some ''abababababababababababababababababababab'',
              resetPasswordExpiresAt := Some 1801000\<rparr>]
   \<and> findOne (\<lambda>v. email v = ''alice@example.org'')
        [alice\<lparr>resetPasswordToken := Some ''abababababababababababababababababababab'',
               resetPasswordExpiresAt := Some 1801000\<rparr>]
      = Some (0, alice\<lparr>resetPasswordToken := Some ''abababababababababababababababababababab'',
                       resetPasswordExpiresAt := Some 1801000\<rparr>)
   \<and> store (forgotPassword (demoEnv None 2000 ''123456'' 0xCD)
        [alice\<lparr>resetPasswordToken := Some ''abababababababababababababababababababab'',
               resetPasswordExpiresAt := Some 1801000\<rparr>] ''alice@example.org'') ! 0
      = alice\<lparr>resetPasswordToken := Some ''cdcdcdcdcdcdcdcdcdcdcdcdcdcdcdcdcdcdcdcd'',
              resetPasswordExpiresAt := Some 1802000\<rparr>
   \<and> \<not> resetTokenLive ''abababababababababababababababababababab'' 3000
        (store (forgotPassword (demoEnv None 2000 ''123456'' 0xCD)
           [alice\<lparr>resetPasswordToken := Some ''abababababababababababababababababababab'',
                  resetPasswordExpiresAt := Some 1801000\<rparr>] ''alice@example.org'') ! 0)"
proof -
  have x: "toHex (replicate 20 (0xAB :: 8 word)) = ''abababababababababababababababababababab''"
    "toHex (replicate 20 (0xCD :: 8 word)) = ''cdcdcdcdcdcdcdcdcdcdcdcdcdcdcdcdcdcdcdcd''"
    by code_simp+
  have l: "store (login (demoEnv (Some 12) 1000 ''123456'' 0xAB) [alice]
      (attempt (Some (home\<lparr>device := Some ''phone''\<rparr>))))
     = [alice\<lparr>resetPasswordToken := Some ''abababababababababababababababababababab'',
              resetPasswordExpiresAt := Some 1801000\<rparr>]"
    by (simp add: login_def newDeviceCheck_def riskDecision_def isDeviceTrusted_def
        demoEnv_def attempt_def alice_def home_def falsy_def str_def save_def Let_def x)
  have f: "findOne (\<lambda>v. email v = ''alice@example.org'')
        [alice\<lparr>resetPasswordToken := Some ''abababababababababababababababababababab'',
               resetPasswordExpiresAt := Some 1801000\<rparr>]
      = Some (0, alice\<lparr>resetPasswordToken := Some ''abababababababababababababababababababab'',
                       resetPasswordExpiresAt := Some 1801000\<rparr>)"
    by (simp add: alice_def)
  have r: "randomBytes (demoEnv None 2000 ''123456'' 0xCD) 20 = replicate 20 0xCD"
    "dateNow (demoEnv None 2000 ''123456'' 0xCD) AtResetIssue = 2000"
    by (simp_all add: demoEnv_def)
  have d: "''abababababababababababababababababababab''
      \<noteq> toHex (randomBytes (demoEnv None 2000 ''123456'' 0xCD) 20)"
    by (simp add: r x)
  from reset_token_overwritten [of "''alice@example.org''"
      "[alice\<lparr>resetPasswordToken := Some ''abababababababababababababababababababab'',
               resetPasswordExpiresAt := Some 1801000\<rparr>]"
      "demoEnv None 2000 ''123456'' 0xCD", THEN conjunct1] f d
  have "store (forgotPassword (demoEnv None 2000 ''123456'' 0xCD)
        [alice\<lparr>resetPasswordToken := Some ''abababababababababababababababababababab'',
               resetPasswordExpiresAt := Some 1801000\<rparr>] ''alice@example.org'') ! 0
      = alice\<lparr>resetPasswordToken := Some ''abababababababababababababababababababab'',
               resetPasswordExpiresAt := Some 1801000\<rparr>
         \<lparr>resetPasswordToken := Some (toHex (randomBytes (demoEnv None 2000 ''123456'' 0xCD) 20)),
             resetPasswordExpiresAt := Some (dateNow (demoEnv None 2000 ''123456'' 0xCD) AtResetIssue + 30 * 60 * 1000)\<rparr>"
    and "\<not> resetTokenLive ''abababababababababababababababababababab'' 3000
        (store (forgotPassword (demoEnv None 2000 ''123456'' 0xCD)
           [alice\<lparr>resetPasswordToken := Some ''abababababababababababababababababababab'',
                  resetPasswordExpiresAt := Some 1801000\<rparr>] ''alice@example.org'') ! 0)"
    by blast+
  with l f show ?thesis by (simp add: r x)
qed

lemma map_email_save:
  "i < length db \<Longrightarrow> email v = email (db ! i) \<Longrightarrow> map email (save i v db) = map email db"
  by (auto simp: save_def list_eq_iff_nth_eq nth_list_update)

lemma riskDecision_emails:
  assumes "i < length db" and "db ! i = u"
  shows "map email (store (riskDecision env i u ctx db out S)) = map email db"
proof -
  let ?u1 = "u\<lparr>verificationToken := Some (generateVerificationCode env),
      verificationTokenExpiresAt := Some (dateNow env AtCodeIssue + 5 * 60 * 1000)\<rparr>"
  from assms have a: "map email (save i ?u1 db) = map email db"
    by (simp add: map_email_save)
  have b: "map email (save i (withTrustStore ts ?u1) (save i ?u1 db)) = map email db" for ts
    using assms by (simp add: save_def withTrustStore_keeps map_email_save [unfolded save_def])
  let ?u2 = "u\<lparr>lastLogin := Some (dateNow env AtLastLogin)\<rparr>"
  have c: "map email (save i (withTrustStore ts ?u2) (save i (withTrustStore ts ?u2) db))
      = map email db" for ts
    using assms by (simp add: save_def withTrustStore_keeps map_email_save [unfolded save_def])
  show ?thesis
    using a b c
    by (auto simp: riskDecision_def Let_def updateContextProfile_def split: option.splits)
qed

lemma riskDecision_two_factor_token:
  assumes "5 \<le> S" and "S < 10" and "i < length db"
  shows "verificationToken (store (riskDecision env i u ctx db out S) ! i)
           = Some (generateVerificationCode env)"
    and "verificationTokenExpiresAt (store (riskDecision env i u ctx db out S) ! i)
           = Some (dateNow env AtCodeIssue + 5 * 60 * 1000)"
  using assms
  by (auto simp: riskDecision_def Let_def updateContextProfile_def save_def
      withTrustStore_keeps split: option.splits)

lemma only_holder:
  assumes "distinct (map email db)" and "i < length db" and "email (db ! i) = a"
    and "verificationToken (db ! i) = Some code" and "old \<noteq> code"
  shows "findOne (codeLive a old now) db = None"
proof -
  have "\<not> codeLive a old now v" if "v \<in> set db" for v
  proof
    assume live: "codeLive a old now v"
    from that obtain j where j: "j < length db" "db ! j = v"
      by (auto simp: in_set_conv_nth)
    from live j assms(3) have "map email db ! j = map email db ! i"
      using assms(2) by (simp add: codeLive_def)
    with assms(1,2) j(1) have "j = i"
      by (metis length_map nth_eq_iff_index_eq)
    with j live assms(4,5) show False
      by (simp add: codeLive_def)
  qed
  then show ?thesis by (simp add: findOne_None)
qed

lemma verifyTwoFactorAuth_rejects:
  assumes "findOne (codeLive (str e) (str c) (dateNow env AtQuery)) db = None"
  shows "\<not> success (json (response (verifyTwoFactorAuth env db e c)))
       \<and> cookie (response (verifyTwoFactorAuth env db e c)) = None
       \<and> store (verifyTwoFactorAuth env db e c) = db"
  using assms by (simp add: verifyTwoFactorAuth_def failure_def)

lemma resend_store:
  assumes "\<not> falsy e" and "findOne (\<lambda>v. email v = str e) db = Some (i, u)"
    and "\<not> isVerified u"
  shows "store (resendVerificationCode env db e)
           = save i (u\<lparr>verificationToken := Some (generateVerificationCode env),
                       verificationTokenExpiresAt
                         := Some (dateNow env AtCodeIssue + 60 * 1000)\<rparr>) db"
  using assms by (simp add: resendVerificationCode_def Let_def)

text \<open>
  C9. A second verification code overwrites the first. After
  \<^verbatim>\<open>resendVerificationCode\<close> for a stored, unverified user, and after a login scored
  with \<open>5 \<le> S < 10\<close>, the user holds the new code with the new expiry, and no code
  other than the new one is live on that user at any time. With one user per email,
  \<^verbatim>\<open>verifyTwoFactorAuth\<close> then rejects every code other than the new one for that
  email and leaves the store as it is.
\<close>

theorem second_code_replaces_first:
  "(\<forall>i u. \<not> falsy e \<and> findOne (\<lambda>v. email v = str e) db = Some (i, u) \<and> \<not> isVerified u \<longrightarrow>
       verificationToken (store (resendVerificationCode env db e) ! i)
         = Some (generateVerificationCode env)
       \<and> verificationTokenExpiresAt (store (resendVerificationCode env db e) ! i)
           = Some (dateNow env AtCodeIssue + 60 * 1000)
       \<and> (\<forall>old now. old \<noteq> generateVerificationCode env \<longrightarrow>
             \<not> verificationLive old now (store (resendVerificationCode env db e) ! i))
       \<and> (distinct (map email db) \<longrightarrow>
            (\<forall>old env'. old \<noteq> generateVerificationCode env \<longrightarrow>
               \<not> success (json (response (verifyTwoFactorAuth env'
                     (store (resendVerificationCode env db e)) e (Some old))))
               \<and> cookie (response (verifyTwoFactorAuth env'
                     (store (resendVerificationCode env db e)) e (Some old))) = None
               \<and> store (verifyTwoFactorAuth env'
                     (store (resendVerificationCode env db e)) e (Some old))
                   = store (resendVerificationCode env db e))))
   \<and> (\<forall>i u ctx S. scoredAt env db b i u ctx S \<and> 5 \<le> S \<and> S < 10 \<longrightarrow>
       verificationToken (store (login env db b) ! i) = Some (generateVerificationCode env)
       \<and> verificationTokenExpiresAt (store (login env db b) ! i)
           = Some (dateNow env AtCodeIssue + 5 * 60 * 1000)
       \<and> (\<forall>old now. old \<noteq> generateVerificationCode env \<longrightarrow>
             \<not> verificationLive old now (store (login env db b) ! i))
       \<and> (distinct (map email db) \<longrightarrow>
            (\<forall>old env'. old \<noteq> generateVerificationCode env \<longrightarrow>
               \<not> success (json (response (verifyTwoFactorAuth env'
                     (store (login env db b)) (body_email b) (Some old))))
               \<and> cookie (response (verifyTwoFactorAuth env'
                     (store (login env db b)) (body_email b) (Some old))) = None
               \<and> store (verifyTwoFactorAuth env'
                     (store (login env db b)) (body_email b) (Some old))
                   = store (login env db b))))"
proof (intro conjI allI impI)
  fix i u
  assume a: "\<not> falsy e \<and> findOne (\<lambda>v. email v = str e) db = Some (i, u) \<and> \<not> isVerified u"
  then have f: "findOne (\<lambda>v. email v = str e) db = Some (i, u)" by simp
  from findOne_Some [OF f] have found: "i < length db" "db ! i = u" "email u = str e"
    by simp_all
  let ?db' = "store (resendVerificationCode env db e)"
  from a have st: "?db' = save i (u\<lparr>verificationToken := Some (generateVerificationCode env),
      verificationTokenExpiresAt := Some (dateNow env AtCodeIssue + 60 * 1000)\<rparr>) db"
    by (simp add: resend_store)
  from st found show tok: "verificationToken (?db' ! i) = Some (generateVerificationCode env)"
    by (simp add: save_def)
  from st found show "verificationTokenExpiresAt (?db' ! i)
      = Some (dateNow env AtCodeIssue + 60 * 1000)"
    by (simp add: save_def)
  {
    fix old now
    assume "old \<noteq> generateVerificationCode env"
    with tok show "\<not> verificationLive old now (?db' ! i)"
      by (simp add: verificationLive_def)
  }
  {
    fix old :: string and env' :: env
    assume d: "distinct (map email db)" and o: "old \<noteq> generateVerificationCode env"
    from st found have em: "map email ?db' = map email db"
      by (simp add: map_email_save)
    from st found have len: "i < length ?db'" and ei: "email (?db' ! i) = str e"
      by (simp_all add: save_def)
    from d em have d': "distinct (map email ?db')" by simp
    have "findOne (codeLive (str e) (str (Some old)) (dateNow env' AtQuery)) ?db' = None"
      using only_holder [OF d' len ei tok o] by (simp add: str_def)
    from verifyTwoFactorAuth_rejects [OF this]
    show "\<not> success (json (response (verifyTwoFactorAuth env' ?db' e (Some old))))"
      and "cookie (response (verifyTwoFactorAuth env' ?db' e (Some old))) = None"
      and "store (verifyTwoFactorAuth env' ?db' e (Some old)) = ?db'"
      by simp_all
  }
next
  fix i u ctx S
  assume a: "scoredAt env db b i u ctx S \<and> 5 \<le> S \<and> S < 10"
  then have sc: "scoredAt env db b i u ctx S" and s: "5 \<le> S" "S < 10" by simp_all
  obtain u1 db1 out1 returned
    where nd: "newDeviceCheck env i u ctx db = (u1, db1, out1, returned)"
    by (cases "newDeviceCheck env i u ctx db") auto
  from sc have acc: "credentialsAccepted env db b i u"
    by (simp add: scoredAt_def)
  then have found: "i < length db" "db ! i = u"
    by (simp_all add: accepted_found)
  from acc have "findOne (\<lambda>v. email v = str (body_email b)) db = Some (i, u)"
    by (simp add: credentialsAccepted_def)
  from findOne_Some [OF this] have eu: "email u = str (body_email b)" by simp
  note keep = newDeviceCheck_keeps [OF nd found]
  have eq: "login env db b = riskDecision env i u1 ctx db1 out1 S"
    by (rule login_scored [OF sc nd])
  from found(1) keep(6) have i1: "i < length db1" by simp
  let ?db' = "store (login env db b)"
  show tok: "verificationToken (?db' ! i) = Some (generateVerificationCode env)"
    unfolding eq by (rule riskDecision_two_factor_token(1) [OF s i1])
  show "verificationTokenExpiresAt (?db' ! i) = Some (dateNow env AtCodeIssue + 5 * 60 * 1000)"
    unfolding eq by (rule riskDecision_two_factor_token(2) [OF s i1])
  {
    fix old now
    assume "old \<noteq> generateVerificationCode env"
    with tok show "\<not> verificationLive old now (?db' ! i)"
      by (simp add: verificationLive_def)
  }
  {
    fix old :: string and env' :: env
    assume d: "distinct (map email db)" and o: "old \<noteq> generateVerificationCode env"
    have e1: "map email db1 = map email db"
      using newDeviceCheck_cases [OF nd] found keep(2)
      by (auto simp: map_email_save)
    have em: "map email ?db' = map email db"
      unfolding eq using riskDecision_emails [OF i1 keep(7)] e1 by simp
    then have len: "i < length ?db'"
      using found(1) by (metis length_map)
    from em found eu have ei: "email (?db' ! i) = str (body_email b)"
      by (metis len nth_map)
    from d em have d': "distinct (map email ?db')" by simp
    have "findOne (codeLive (str (body_email b)) (str (Some old)) (dateNow env' AtQuery)) ?db'
        = None"
      using only_holder [OF d' len ei tok o] by (simp add: str_def)
    from verifyTwoFactorAuth_rejects [OF this]
    show "\<not> success (json (response (verifyTwoFactorAuth env' ?db' (body_email b) (Some old))))"
      and "cookie (response (verifyTwoFactorAuth env' ?db' (body_email b) (Some old))) = None"
      and "store (verifyTwoFactorAuth env' ?db' (body_email b) (Some old)) = ?db'"
      by simp_all
  }
qed


theorem second_code_replaces_first_witness:
  "store (resendVerificationCode (demoEnv None 1000 ''111111'' 0) [alice]
      (Some ''alice@example.org'')) = [(alice\<lparr>verificationToken := Some ''111111'', verificationTokenExpiresAt := Some 61000\<rparr>)]
   \<and> distinct (map email [(alice\<lparr>verificationToken := Some ''111111'', verificationTokenExpiresAt := Some 61000\<rparr>)])
   \<and> verificationToken (store (resendVerificationCode (demoEnv None 2000 ''222222'' 0) [(alice\<lparr>verificationToken := Some ''111111'', verificationTokenExpiresAt := Some 61000\<rparr>)]
        (Some ''alice@example.org'')) ! 0) = Some ''222222''
   \<and> \<not> success (json (response (verifyTwoFactorAuth (demoEnv None 3000 ''000000'' 0)
        (store (resendVerificationCode (demoEnv None 2000 ''222222'' 0) [(alice\<lparr>verificationToken := Some ''111111'', verificationTokenExpiresAt := Some 61000\<rparr>)]
           (Some ''alice@example.org'')))
        (Some ''alice@example.org'') (Some ''111111''))))
   \<and> scoredAt (demoEnv (Some 7) 2000 ''333333'' 0) [(alice\<lparr>verificationToken := Some ''111111'', verificationTokenExpiresAt := Some 61000\<rparr>)] (attempt (Some home)) 0 (alice\<lparr>verificationToken := Some ''111111'', verificationTokenExpiresAt := Some 61000\<rparr>) (Some home) 7
   \<and> verificationToken (store (login (demoEnv (Some 7) 2000 ''333333'' 0) [(alice\<lparr>verificationToken := Some ''111111'', verificationTokenExpiresAt := Some 61000\<rparr>)]
        (attempt (Some home))) ! 0) = Some ''333333''
   \<and> \<not> success (json (response (verifyTwoFactorAuth (demoEnv None 3000 ''000000'' 0)
        (store (login (demoEnv (Some 7) 2000 ''333333'' 0) [(alice\<lparr>verificationToken := Some ''111111'', verificationTokenExpiresAt := Some 61000\<rparr>)] (attempt (Some home))))
        (Some ''alice@example.org'') (Some ''111111''))))"
proof -
  have first: "store (resendVerificationCode (demoEnv None 1000 ''111111'' 0) [alice]
      (Some ''alice@example.org'')) = [(alice\<lparr>verificationToken := Some ''111111'', verificationTokenExpiresAt := Some 61000\<rparr>)]"
    by (simp add: resendVerificationCode_def falsy_def str_def save_def demoEnv_def alice_def
        Let_def)
  have d: "distinct (map email [(alice\<lparr>verificationToken := Some ''111111'', verificationTokenExpiresAt := Some 61000\<rparr>)])"
    by simp
  have p: "\<not> falsy (Some ''alice@example.org'')"
    by (simp add: falsy_def)
  have f: "findOne (\<lambda>v. email v = str (Some ''alice@example.org'')) [(alice\<lparr>verificationToken := Some ''111111'', verificationTokenExpiresAt := Some 61000\<rparr>)] = Some (0, (alice\<lparr>verificationToken := Some ''111111'', verificationTokenExpiresAt := Some 61000\<rparr>))"
    by (simp add: str_def alice_def)
  have v: "\<not> isVerified (alice\<lparr>verificationToken := Some ''111111'', verificationTokenExpiresAt := Some 61000\<rparr>)"
    by (simp add: alice_def)
  have g: "generateVerificationCode (demoEnv None 2000 ''222222'' 0) = ''222222''"
    "generateVerificationCode (demoEnv (Some 7) 2000 ''333333'' 0) = ''333333''"
    by (simp_all add: demoEnv_def)
  have o: "''111111'' \<noteq> generateVerificationCode (demoEnv None 2000 ''222222'' 0)"
    "''111111'' \<noteq> generateVerificationCode (demoEnv (Some 7) 2000 ''333333'' 0)"
    by (simp_all add: g)
  from second_code_replaces_first [of "Some ''alice@example.org''" "[(alice\<lparr>verificationToken := Some ''111111'', verificationTokenExpiresAt := Some 61000\<rparr>)]"
      "demoEnv None 2000 ''222222'' 0", THEN conjunct1] p f v d o(1)
  have a: "verificationToken (store (resendVerificationCode (demoEnv None 2000 ''222222'' 0)
        [(alice\<lparr>verificationToken := Some ''111111'', verificationTokenExpiresAt := Some 61000\<rparr>)] (Some ''alice@example.org'')) ! 0)
        = Some (generateVerificationCode (demoEnv None 2000 ''222222'' 0))"
    and b: "\<not> success (json (response (verifyTwoFactorAuth (demoEnv None 3000 ''000000'' 0)
        (store (resendVerificationCode (demoEnv None 2000 ''222222'' 0) [(alice\<lparr>verificationToken := Some ''111111'', verificationTokenExpiresAt := Some 61000\<rparr>)]
           (Some ''alice@example.org'')))
        (Some ''alice@example.org'') (Some ''111111''))))"
    by blast+
  have h: "scoredAt (demoEnv (Some 7) 2000 ''333333'' 0) [(alice\<lparr>verificationToken := Some ''111111'', verificationTokenExpiresAt := Some 61000\<rparr>)] (attempt (Some home)) 0 (alice\<lparr>verificationToken := Some ''111111'', verificationTokenExpiresAt := Some 61000\<rparr>) (Some home) 7"
    by (simp add: scoredAt_def credentialsAccepted_def newDeviceCheck_def isDeviceTrusted_def
        demoEnv_def attempt_def alice_def home_def falsy_def str_def Let_def)
  have e: "body_email (attempt (Some home)) = Some ''alice@example.org''"
    by (simp add: attempt_def)
  have s: "(5::int) \<le> 7" "(7::int) < 10"
    by simp_all
  from second_code_replaces_first [of _ "[(alice\<lparr>verificationToken := Some ''111111'', verificationTokenExpiresAt := Some 61000\<rparr>)]" "demoEnv (Some 7) 2000 ''333333'' 0"
      "attempt (Some home)", THEN conjunct2] h s d o(2)
  have c: "verificationToken (store (login (demoEnv (Some 7) 2000 ''333333'' 0) [(alice\<lparr>verificationToken := Some ''111111'', verificationTokenExpiresAt := Some 61000\<rparr>)]
        (attempt (Some home))) ! 0)
        = Some (generateVerificationCode (demoEnv (Some 7) 2000 ''333333'' 0))"
    and "\<not> success (json (response (verifyTwoFactorAuth (demoEnv None 3000 ''000000'' 0)
        (store (login (demoEnv (Some 7) 2000 ''333333'' 0) [(alice\<lparr>verificationToken := Some ''111111'', verificationTokenExpiresAt := Some 61000\<rparr>)] (attempt (Some home))))
        (body_email (attempt (Some home))) (Some ''111111''))))"
    by blast+
  with first d a b h show ?thesis
    by (simp add: g e)
qed

section \<open>The user object of a response\<close>

lemma loginPayload_fields:
  "j_password (loginPayload v) = None" "j_trustedIPs (loginPayload v) = None"
  "j_trustedDevices (loginPayload v) = None" "j_locations (loginPayload v) = None"
  "j_behavioralProfile (loginPayload v) = None" "j_riskScore (loginPayload v) = None"
  "j_contextLogs (loginPayload v) = Some (contextLogs v)"
  "j_id (loginPayload v) = Some (uid v)"
  by (simp_all add: loginPayload_def spreadDoc_def)

lemma riskDecision_payload:
  assumes "userOf (json (response (riskDecision env i u ctx db out S))) = Some p"
    and "i < length db"
  shows "p = loginPayload (store (riskDecision env i u ctx db out S) ! i)"
  using assms
  by (auto simp: riskDecision_def Let_def failure_def updateContextProfile_def save_def
      split: if_splits option.splits)

lemma riskDecision_length:
  "length (store (riskDecision env i u ctx db out S)) = length db"
  by (auto simp: riskDecision_def Let_def updateContextProfile_def save_def
      split: option.splits)

lemma login_payload:
  assumes "userOf (json (response (login env db b))) = Some p"
  shows "\<exists>v \<in> set (store (login env db b)). p = loginPayload v"
proof -
  from assms have "\<exists>i u ctx. credentialsAccepted env db b i u \<and> body_context b = ctx"
    by (auto simp: login_def credentialsAccepted_def failure_def split: if_splits option.splits)
  then obtain i u ctx
    where acc: "credentialsAccepted env db b i u" and c: "body_context b = ctx"
    by blast
  obtain u1 db1 out1 returned
    where nd: "newDeviceCheck env i u ctx db = (u1, db1, out1, returned)"
    by (cases "newDeviceCheck env i u ctx db") auto
  note eq = login_accepted [OF acc c]
  from assms have r: "returned"
    by (auto simp: eq nd failure_def split: if_splits)
  from assms r obtain S where e: "evaluateContext env ctx u1 = Some S"
    by (auto simp: eq nd failure_def split: option.splits)
  have l: "login env db b = riskDecision env i u1 ctx db1 out1 S"
    by (simp add: eq nd r e)
  from accepted_found [OF acc] have found: "i < length db" "db ! i = u" by simp_all
  from newDeviceCheck_keeps(6) [OF nd found] found(1) have i1: "i < length db1" by simp
  from assms have "p = loginPayload (store (login env db b) ! i)"
    unfolding l by (rule riskDecision_payload [OF _ i1])
  moreover have "i < length (store (login env db b))"
    unfolding l using i1 by (simp add: riskDecision_length)
  ultimately show ?thesis by (metis nth_mem)
qed

lemma riskDecision_success_shape:
  assumes "success (json (response (riskDecision env i u ctx db out S)))"
  shows "userOf (json (response (riskDecision env i u ctx db out S))) \<noteq> None
       \<or> (\<exists>msg e. json (response (riskDecision env i u ctx db out S)) = TwoFactorRequired msg e)"
  using assms
  by (auto simp: riskDecision_def Let_def failure_def split: if_splits option.splits)

lemma login_success_shape:
  assumes "success (json (response (login env db b)))"
  shows "userOf (json (response (login env db b))) \<noteq> None
       \<or> (\<exists>msg e. json (response (login env db b)) = TwoFactorRequired msg e)"
proof -
  from assms have "\<exists>i u ctx. credentialsAccepted env db b i u \<and> body_context b = ctx"
    by (auto simp: login_def credentialsAccepted_def failure_def split: if_splits option.splits)
  then obtain i u ctx
    where acc: "credentialsAccepted env db b i u" and c: "body_context b = ctx"
    by blast
  obtain u1 db1 out1 returned
    where nd: "newDeviceCheck env i u ctx db = (u1, db1, out1, returned)"
    by (cases "newDeviceCheck env i u ctx db") auto
  note eq = login_accepted [OF acc c]
  from assms have r: "returned"
    by (auto simp: eq nd failure_def split: if_splits)
  from assms r obtain S where e: "evaluateContext env ctx u1 = Some S"
    by (auto simp: eq nd failure_def split: option.splits)
  have l: "login env db b = riskDecision env i u1 ctx db1 out1 S"
    by (simp add: eq nd r e)
  from assms show ?thesis
    unfolding l by (rule riskDecision_success_shape)
qed

lemma verifyTwoFactorAuth_payload:
  assumes "userOf (json (response (verifyTwoFactorAuth env db e c))) = Some p"
  shows "\<exists>v \<in> set (store (verifyTwoFactorAuth env db e c)). p = loginPayload v"
proof -
  from assms have q: "\<not> falsy e" "\<not> falsy c"
    by (auto simp: verifyTwoFactorAuth_def failure_def split: if_splits)
  from assms q obtain i u
    where f: "findOne (codeLive (str e) (str c) (dateNow env AtQuery)) db = Some (i, u)"
    by (cases "findOne (codeLive (str e) (str c) (dateNow env AtQuery)) db")
      (auto simp: verifyTwoFactorAuth_not_found failure_def)
  from findOne_Some [OF f] have "i < length db" by simp
  then have "u\<lparr>verificationToken := None, verificationTokenExpiresAt := None\<rparr>
      \<in> set (save i (u\<lparr>verificationToken := None, verificationTokenExpiresAt := None\<rparr>) db)"
    by (simp add: save_def set_update_memI)
  with assms show ?thesis
    by (auto simp: verifyTwoFactorAuth_found [OF q f])
qed

text \<open>
  C10, as the code has it. Every response of \<^verbatim>\<open>login\<close> and of
  \<^verbatim>\<open>verifyTwoFactorAuth\<close> that carries a user object carries it with the fields
  password, trustedIPs, trustedDevices, locations, behavioralProfile and riskScore set to
  undefined. A successful response of \<^verbatim>\<open>verifyTwoFactorAuth\<close> carries a user object; a
  successful response of \<^verbatim>\<open>login\<close> carries one unless it is the two-factor-required
  response, which carries none. The other fields of the stored user are copied, the
  context logs among them.
\<close>

theorem payload_omits_listed_fields:
  "(\<forall>p. userOf (json (response (login env db b))) = Some p
          \<or> userOf (json (response (verifyTwoFactorAuth env db e c))) = Some p \<longrightarrow>
      j_password p = None \<and> j_trustedIPs p = None \<and> j_trustedDevices p = None
      \<and> j_locations p = None \<and> j_behavioralProfile p = None \<and> j_riskScore p = None)
   \<and> (success (json (response (login env db b))) \<longrightarrow>
        userOf (json (response (login env db b))) \<noteq> None
        \<or> (\<exists>msg a. json (response (login env db b)) = TwoFactorRequired msg a))
   \<and> (success (json (response (verifyTwoFactorAuth env db e c))) \<longrightarrow>
        userOf (json (response (verifyTwoFactorAuth env db e c))) \<noteq> None)
   \<and> (\<forall>p. userOf (json (response (login env db b))) = Some p \<longrightarrow>
        (\<exists>v \<in> set (store (login env db b)).
           j_id p = Some (uid v) \<and> j_contextLogs p = Some (contextLogs v)))
   \<and> (\<forall>p. userOf (json (response (verifyTwoFactorAuth env db e c))) = Some p \<longrightarrow>
        (\<exists>v \<in> set (store (verifyTwoFactorAuth env db e c)).
           j_id p = Some (uid v) \<and> j_contextLogs p = Some (contextLogs v)))"
proof -
  have 1: "\<forall>p. userOf (json (response (login env db b))) = Some p
          \<or> userOf (json (response (verifyTwoFactorAuth env db e c))) = Some p \<longrightarrow>
      j_password p = None \<and> j_trustedIPs p = None \<and> j_trustedDevices p = None
      \<and> j_locations p = None \<and> j_behavioralProfile p = None \<and> j_riskScore p = None"
    using login_payload [of env db b] verifyTwoFactorAuth_payload [of env db e c]
    by (auto simp: loginPayload_fields)
  have 2: "success (json (response (login env db b))) \<longrightarrow>
        userOf (json (response (login env db b))) \<noteq> None
        \<or> (\<exists>msg a. json (response (login env db b)) = TwoFactorRequired msg a)"
    using login_success_shape by blast
  have 3: "success (json (response (verifyTwoFactorAuth env db e c))) \<longrightarrow>
        userOf (json (response (verifyTwoFactorAuth env db e c))) \<noteq> None"
    by (auto simp: verifyTwoFactorAuth_def Let_def failure_def split: if_splits option.splits)
  have 4: "\<forall>p. userOf (json (response (login env db b))) = Some p \<longrightarrow>
        (\<exists>v \<in> set (store (login env db b)).
           j_id p = Some (uid v) \<and> j_contextLogs p = Some (contextLogs v))"
    using login_payload [of env db b] by (fastforce simp: loginPayload_fields)
  have 5: "\<forall>p. userOf (json (response (verifyTwoFactorAuth env db e c))) = Some p \<longrightarrow>
        (\<exists>v \<in> set (store (verifyTwoFactorAuth env db e c)).
           j_id p = Some (uid v) \<and> j_contextLogs p = Some (contextLogs v))"
    using verifyTwoFactorAuth_payload [of env db e c] by (fastforce simp: loginPayload_fields)
  from 1 2 3 4 5 show ?thesis by blast
qed


theorem payload_omits_listed_fields_witness:
  "userOf (json (response (login (demoEnv (Some 0) 1000 ''123456'' 0xAB) [alice]
      (attempt (Some home)))))
     = Some (loginPayload (alice\<lparr>lastLogin := Some 1000\<rparr>))
   \<and> j_password (loginPayload (alice\<lparr>lastLogin := Some 1000\<rparr>)) = None
   \<and> j_trustedDevices (loginPayload (alice\<lparr>lastLogin := Some 1000\<rparr>)) = None
   \<and> j_riskScore (loginPayload (alice\<lparr>lastLogin := Some 1000\<rparr>)) = None"
proof -
  have k: "userOf (json (response (login (demoEnv (Some 0) 1000 ''123456'' 0xAB) [alice]
      (attempt (Some home)))))
     = Some (loginPayload (alice\<lparr>lastLogin := Some 1000\<rparr>))"
    by (simp add: login_def newDeviceCheck_def riskDecision_def updateContextProfile_def
        isDeviceTrusted_def demoEnv_def demoFold_def attempt_def alice_def home_def
        falsy_def str_def save_def withTrustStore_def trustStore_def Let_def)
  from payload_omits_listed_fields [of "demoEnv (Some 0) 1000 ''123456'' 0xAB" "[alice]"
      "attempt (Some home)", THEN conjunct1] k
  show ?thesis by blast
qed

text \<open>
  C10 as stated fails for the context log, which is part of the TrustStore: the response
  of a successful login carries the logged ip, device, location and risk score.
\<close>

theorem payload_carries_context_logs:
  "map_option j_contextLogs (userOf (json (response
      (login (demoEnv (Some 0) 1000 ''123456'' 0xAB) [alice] (attempt (Some home))))))
     = Some (Some [\<lparr>log_ip = ''1.2.3.4'', log_device = ''chrome-macos-abc'',
          log_location = \<lparr>log_lat = 28, log_lon = 77, locationName = ''Delhi''\<rparr>,
          timestamp = 0, log_riskScore = 0\<rparr>])
   \<and> ts_contextLogs (trustStore alice)
     = [\<lparr>log_ip = ''1.2.3.4'', log_device = ''chrome-macos-abc'',
          log_location = \<lparr>log_lat = 28, log_lon = 77, locationName = ''Delhi''\<rparr>,
          timestamp = 0, log_riskScore = 0\<rparr>]"
  by (simp add: login_def newDeviceCheck_def riskDecision_def updateContextProfile_def
      isDeviceTrusted_def demoEnv_def demoFold_def attempt_def alice_def home_def
      falsy_def str_def save_def withTrustStore_def trustStore_def loginPayload_def
      spreadDoc_def Let_def)

end
